theory Spec2Isabelle
  imports Complex_Main "HOL-Library.Product_Lexorder"
begin

section \<open>Data model\<close>

subsection \<open>Array values\<close>

text \<open>
  The cubes and maps of \<^verbatim>\<open>brian.py\<close> are numpy arrays of floats. A sample is
  either the invalid marker \<^verbatim>\<open>np.nan\<close> or a number; numbers are taken as exact
  reals (rounding, infinities and signed zeros are outside this model).
\<close>

datatype fval = NaN | Fin real

fun isnan :: "fval \<Rightarrow> bool" where
  "isnan NaN = True"
| "isnan (Fin _) = False"

text \<open>Arithmetic: an invalid operand makes the result invalid.\<close>

fun fmul :: "fval \<Rightarrow> fval \<Rightarrow> fval" where
  "fmul (Fin a) (Fin b) = Fin (a * b)"
| "fmul _ _ = NaN"

fun fadd :: "fval \<Rightarrow> fval \<Rightarrow> fval" where
  "fadd (Fin a) (Fin b) = Fin (a + b)"
| "fadd _ _ = NaN"

fun fsub :: "fval \<Rightarrow> fval \<Rightarrow> fval" where
  "fsub (Fin a) (Fin b) = Fin (a - b)"
| "fsub _ _ = NaN"

fun fdiv :: "fval \<Rightarrow> fval \<Rightarrow> fval" where
  "fdiv (Fin a) (Fin b) = (if b = 0 then NaN else Fin (a / b))"
| "fdiv _ _ = NaN"

text \<open>Comparisons: every comparison with an invalid operand is false.\<close>

fun flt :: "fval \<Rightarrow> fval \<Rightarrow> bool" where
  "flt (Fin a) (Fin b) = (a < b)"
| "flt _ _ = False"

fun fge :: "fval \<Rightarrow> fval \<Rightarrow> bool" where
  "fge (Fin a) (Fin b) = (a \<ge> b)"
| "fge _ _ = False"

fun fgt :: "fval \<Rightarrow> fval \<Rightarrow> bool" where
  "fgt (Fin a) (Fin b) = (a > b)"
| "fgt _ _ = False"

text \<open>
  \<^verbatim>\<open>if params[...]:\<close> tests the truth value of a configured threshold:
  \<^verbatim>\<open>None\<close> and zero are false, every other number (also the invalid one) is true.
\<close>

fun truthy :: "fval option \<Rightarrow> bool" where
  "truthy None = False"
| "truthy (Some (Fin a)) = (a \<noteq> 0)"
| "truthy (Some NaN) = True"

text \<open>\<^verbatim>\<open>np.nansum\<close>: invalid samples contribute zero.\<close>

fun nan_to_zero :: "fval \<Rightarrow> real" where
  "nan_to_zero NaN = 0"
| "nan_to_zero (Fin a) = a"

definition nansum :: "fval list \<Rightarrow> fval" where
  "nansum xs = Fin (sum_list (map nan_to_zero xs))"

type_synonym spectrum = "fval list"

text \<open>A map is indexed \<open>[y, x]\<close>, a cube \<open>[wavelength, y, x]\<close>.\<close>

type_synonym image = "nat \<Rightarrow> nat \<Rightarrow> fval"
type_synonym cube = "nat \<Rightarrow> nat \<Rightarrow> nat \<Rightarrow> fval"

text \<open>\<^verbatim>\<open>np.zeros_like(data) * np.nan\<close>\<close>

definition nan_cube :: cube where
  "nan_cube = (\<lambda>w y x. NaN)"

definition nan_image :: image where
  "nan_image = (\<lambda>y x. NaN)"

text \<open>The extent of the arrays, as the header of the signal extension gives it.\<close>

record header =
  NAXIS1 :: nat
  NAXIS2 :: nat
  NAXIS3 :: nat

text \<open>
  Indexing one axis of length \<open>n\<close> with a Python integer: a negative index counts
  from the end, anything else out of range raises.
\<close>

definition py_index :: "nat \<Rightarrow> int \<Rightarrow> nat option" where
  "py_index n i =
     (if 0 \<le> i \<and> i < int n then Some (nat i)
      else if - int n \<le> i \<and> i < 0 then Some (nat (int n + i))
      else None)"

subsection \<open>Errors, configuration and the outside world\<close>

datatype error =
    UnboundLocalError string
  | NameError string
  | IndexError
  | ValueError
  | KeyboardInterrupt
  | SystemExit string int

datatype fit_method = Lowess | Ppxf

fun method_name :: "fit_method \<Rightarrow> string" where
  "method_name Lowess = ''lowess''"
| "method_name Ppxf = ''ppxf''"

text \<open>The result of one line fit (the object \<^verbatim>\<open>els_mpfit\<close> returns).\<close>

record fit_result =
  params :: spectrum
  perror :: spectrum
  status :: int

text \<open>
  The entries of \<^verbatim>\<open>params\<close> the fitting stages read. A threshold is
  \<^verbatim>\<open>None\<close> or a number. An entry of \<^verbatim>\<open>which_cont_sub\<close> has the key
  \<^verbatim>\<open>'low->high'\<close>, with \<open>high\<close> an integer or \<^verbatim>\<open>max\<close> (here \<open>None\<close>),
  and names a continuum source.
\<close>

record config =
  lowess_snr_min :: "fval option"
  lowess_snr_max :: "fval option"
  ppxf_snr_min :: "fval option"
  ppxf_snr_max :: "fval option"
  elines_snr_min :: "fval option"
  elines_snr_max :: "fval option"
  multiprocessing :: bool
  which_cont_sub :: "((int \<times> int option) \<times> string) list"
  nlines :: nat

fun snr_min :: "config \<Rightarrow> fit_method \<Rightarrow> fval option" where
  "snr_min p Lowess = lowess_snr_min p"
| "snr_min p Ppxf = ppxf_snr_min p"

fun snr_max :: "config \<Rightarrow> fit_method \<Rightarrow> fval option" where
  "snr_max p Lowess = lowess_snr_max p"
| "snr_max p Ppxf = ppxf_snr_max p"

text \<open>
  The files a stage reads: the data cube with its error cube, and the two
  signal-to-noise maps.
\<close>

record inputs =
  header1 :: header
  data :: cube
  err :: cube
  snr_cont :: image
  snr_elines :: image

text \<open>
  The checkpoint files of a run, by the part of the file name that varies: the
  method and the row for the continuum, the row alone for the emission lines. The
  pool of workers leaves a trace of what was done to it, row by row.
\<close>

datatype pool_event = Created int | Closed int | Joined int

record world =
  cont_files :: "(fit_method \<times> int) \<rightharpoonup> spectrum list"
  eline_files :: "int \<rightharpoonup> fit_result list"
  pool_log :: "pool_event list"

section \<open>The continuum fitting stage\<close>

text \<open>\<^verbatim>\<open>a[mask] = v\<close> on a one-dimensional array.\<close>

definition mask_assign :: "'a list \<Rightarrow> (nat \<Rightarrow> bool) \<Rightarrow> 'a \<Rightarrow> 'a list" where
  "mask_assign g m v = map (\<lambda>i. if m i then v else g ! i) [0..<length g]"

text \<open>
  Lines 197 to 201: the gate on the continuum signal-to-noise of the spaxels of one
  row (the row already a valid index).
\<close>

definition gate :: "fval option \<Rightarrow> (fval \<Rightarrow> fval \<Rightarrow> bool) \<Rightarrow> (nat \<Rightarrow> fval) \<Rightarrow> fval list \<Rightarrow> fval list" where
  "gate thr cmp snr g =
     (case thr of
        None \<Rightarrow> g
      | Some t \<Rightarrow> if truthy (Some t) then mask_assign g (\<lambda>i. cmp (snr i) t) NaN else g)"

definition good_spaxels_cont :: "inputs \<Rightarrow> config \<Rightarrow> fit_method \<Rightarrow> nat \<Rightarrow> fval list" where
  "good_spaxels_cont inp p m row =
     (let g0 = replicate (NAXIS2 (header1 inp)) (Fin 1);
          g1 = gate (snr_min p m) flt (\<lambda>i. snr_cont inp i row) g0;
          g2 = gate (snr_max p m) fge (\<lambda>i. snr_cont inp i row) g1
      in g2)"

text \<open>Line 204: the spectra of one row handed to the fit.\<close>

definition specs_cont :: "inputs \<Rightarrow> config \<Rightarrow> fit_method \<Rightarrow> nat \<Rightarrow> spectrum list" where
  "specs_cont inp p m row =
     map (\<lambda>i. map (\<lambda>w. fmul (data inp w i row) (good_spaxels_cont inp p m row ! i))
                [0..<NAXIS3 (header1 inp)])
         [0..<NAXIS2 (header1 inp)]"

text \<open>
  Lines 176 to 189: only the first method binds \<^verbatim>\<open>fit_func\<close>; the second branch
  is a comment. The fit itself (\<^verbatim>\<open>brian_cof.lowess_fit\<close>) is a function of the
  spectrum, given from outside.
\<close>

fun fit_func_cont :: "(spectrum \<Rightarrow> spectrum) \<Rightarrow> fit_method \<Rightarrow> error + (spectrum \<Rightarrow> spectrum)" where
  "fit_func_cont lowess_fit Lowess = Inr lowess_fit"
| "fit_func_cont lowess_fit Ppxf = Inl (UnboundLocalError ''fit_func'')"

text \<open>
  Lines 207 to 245, for any fit and any list of inputs: a pool is created, and the
  user's cancelling (\<open>cancel\<close>) during \<^verbatim>\<open>pool.map\<close> is caught, the pool closed and
  joined, and the run left through \<^verbatim>\<open>sys.exit\<close>; without a pool the interrupt is not
  caught.
\<close>

definition dispatch ::
  "bool \<Rightarrow> string \<Rightarrow> (error + ('a \<Rightarrow> 'b)) \<Rightarrow> bool \<Rightarrow> int \<Rightarrow> 'a list \<Rightarrow> pool_event list
     \<Rightarrow> (error + 'b list) \<times> pool_event list" where
  "dispatch multi msg fit cancel row xs lg =
     (if multi then
        (let lg1 = lg @ [Created row] in
         case fit of
           Inl e \<Rightarrow> (Inl e, lg1)
         | Inr f \<Rightarrow>
             if cancel
             then (Inl (SystemExit msg row), lg1 @ [Closed row, Joined row])
             else (Inr (map f xs), lg1 @ [Closed row, Joined row]))
      else
        (case fit of
           Inl e \<Rightarrow> (Inl e, lg)
         | Inr f \<Rightarrow> if cancel then (Inl KeyboardInterrupt, lg) else (Inr (map f xs), lg)))"

text \<open>One pass of the loop of \<^verbatim>\<open>run_fit_continuum\<close> (lines 193 to 255).\<close>

definition fit_row_continuum ::
  "inputs \<Rightarrow> config \<Rightarrow> (spectrum \<Rightarrow> spectrum) \<Rightarrow> (int \<Rightarrow> bool) \<Rightarrow> fit_method \<Rightarrow> int \<Rightarrow> world
     \<Rightarrow> error option \<times> world" where
  "fit_row_continuum inp p lowess_fit cancel m row wd =
     (case py_index (NAXIS1 (header1 inp)) row of
        None \<Rightarrow>
          (if truthy (snr_min p m) \<or> truthy (snr_max p m) \<or> 0 < NAXIS2 (header1 inp)
           then (Some IndexError, wd)
           else (case dispatch (multiprocessing p)
                        ''Multiprocessing continuum fitting interrupted at row ''
                        (fit_func_cont lowess_fit m) (cancel row) row [] (pool_log wd) of
                   (Inl e, lg) \<Rightarrow> (Some e, wd\<lparr>pool_log := lg\<rparr>)
                 | (Inr conts, lg) \<Rightarrow>
                     (None, wd\<lparr>pool_log := lg,
                               cont_files := (cont_files wd)((m, row) \<mapsto> conts)\<rparr>)))
      | Some r \<Rightarrow>
          (case dispatch (multiprocessing p)
                  ''Multiprocessing continuum fitting interrupted at row ''
                  (fit_func_cont lowess_fit m) (cancel row) row (specs_cont inp p m r)
                  (pool_log wd) of
             (Inl e, lg) \<Rightarrow> (Some e, wd\<lparr>pool_log := lg\<rparr>)
           | (Inr conts, lg) \<Rightarrow>
               (None, wd\<lparr>pool_log := lg,
                         cont_files := (cont_files wd)((m, row) \<mapsto> conts)\<rparr>)))"

text \<open>
  The loop over \<^verbatim>\<open>np.linspace(start_row, end_row, end_row-start_row+1)\<close>: the rows
  from \<open>start_row\<close> to \<open>end_row\<close>, both included, none when \<open>end_row\<close> is smaller.
  The first error ends the run; what is on disk stays.
\<close>

fun run_rows :: "(int \<Rightarrow> world \<Rightarrow> error option \<times> world) \<Rightarrow> int list \<Rightarrow> world
     \<Rightarrow> error option \<times> world" where
  "run_rows step [] wd = (None, wd)"
| "run_rows step (row # rows) wd =
     (case step row wd of
        (Some e, wd') \<Rightarrow> (Some e, wd')
      | (None, wd') \<Rightarrow> run_rows step rows wd')"

definition run_fit_continuum ::
  "inputs \<Rightarrow> config \<Rightarrow> (spectrum \<Rightarrow> spectrum) \<Rightarrow> (int \<Rightarrow> bool)
     \<Rightarrow> int option \<Rightarrow> int option \<Rightarrow> fit_method \<Rightarrow> world \<Rightarrow> error option \<times> world" where
  "run_fit_continuum inp p lowess_fit cancel start_row end_row m wd =
     (let nrows = int (NAXIS1 (header1 inp));
          start_row = (case start_row of None \<Rightarrow> 0 | Some s \<Rightarrow> s);
          end_row = (case end_row of None \<Rightarrow> nrows - 1 | Some e \<Rightarrow> e)
      in run_rows (fit_row_continuum inp p lowess_fit cancel m) [start_row..end_row] wd)"

section \<open>Assembling the continuum cube\<close>

text \<open>
  \<^verbatim>\<open>cube[:,:,row] = np.array(rows).T\<close>: the list holds one vector per spaxel of
  the row. The assignment needs the list to have the shape of the slab
  (\<open>ny\<close> vectors of \<open>nw\<close> samples); anything else is reported as the error numpy
  raises on a shape mismatch (numpy's stretching of an axis of length one is not
  modelled).
\<close>

definition set_slab :: "nat \<Rightarrow> nat \<Rightarrow> cube \<Rightarrow> nat \<Rightarrow> spectrum list \<Rightarrow> error + cube" where
  "set_slab nw ny c row rows =
     (if length rows = ny \<and> list_all (\<lambda>s. length s = nw) rows
      then Inr (\<lambda>w y x. if x = row \<and> y < ny \<and> w < nw then rows ! y ! w else c w y x)
      else Inl ValueError)"


fun for_rows :: "(nat \<Rightarrow> 'a \<Rightarrow> error + 'a) \<Rightarrow> nat list \<Rightarrow> 'a \<Rightarrow> error + 'a" where
  "for_rows body [] c = Inr c"
| "for_rows body (row # rows) c =
     (case body row c of Inl e \<Rightarrow> Inl e | Inr c' \<Rightarrow> for_rows body rows c')"


section \<open>The emission line fitting stage\<close>

text \<open>
  \<^verbatim>\<open>np.nanmax(snr_cont)\<close> over a map of \<open>ny\<close> by \<open>nx\<close> spaxels: the largest valid
  value, invalid when there is none; an empty map raises.
\<close>

definition grid :: "nat \<Rightarrow> nat \<Rightarrow> (nat \<times> nat) list" where
  "grid ny nx = concat (map (\<lambda>y. map (\<lambda>x. (y, x)) [0..<nx]) [0..<ny])"

fun fmax :: "fval \<Rightarrow> fval \<Rightarrow> fval" where
  "fmax NaN b = b"
| "fmax a NaN = a"
| "fmax (Fin a) (Fin b) = Fin (max a b)"

definition nanmax :: "nat \<Rightarrow> nat \<Rightarrow> image \<Rightarrow> error + fval" where
  "nanmax ny nx im =
     (if ny = 0 \<or> nx = 0 then Inl ValueError
      else Inr (foldl fmax NaN (map (\<lambda>(y, x). im y x) (grid ny nx))))"

text \<open>
  Lines 383 to 401: the continuum subtraction, one entry of the table after the
  other. The first branch reads the local \<^verbatim>\<open>cont_lowess\<close>, bound only when the
  cube was found (\<open>None\<close> otherwise); the second branch reads the name
  \<^verbatim>\<open>cont_ppfx\<close>, which nothing binds.
\<close>

definition sub_where :: "header \<Rightarrow> (nat \<Rightarrow> nat \<Rightarrow> bool) \<Rightarrow> cube \<Rightarrow> cube \<Rightarrow> cube" where
  "sub_where h msk d c =
     (\<lambda>w y x. if w < NAXIS3 h \<and> y < NAXIS2 h \<and> x < NAXIS1 h \<and> msk y x
               then fsub (d w y x) (c w y x) else d w y x)"

fun cont_sub ::
  "header \<Rightarrow> image \<Rightarrow> cube option \<Rightarrow> ((int \<times> int option) \<times> string) list \<Rightarrow> cube
     \<Rightarrow> error + cube" where
  "cont_sub h snr cont_lowess [] d = Inr d"
| "cont_sub h snr cont_lowess (((llim, hi), src) # rest) d =
     (case (case hi of
              None \<Rightarrow> (case nanmax (NAXIS2 h) (NAXIS1 h) snr of
                          Inl e \<Rightarrow> Inl e
                        | Inr m \<Rightarrow> Inr (fadd m (Fin 1)))
            | Some u \<Rightarrow> Inr (Fin (of_int u))) of
        Inl e \<Rightarrow> Inl e
      | Inr ulim \<Rightarrow>
          (if src = ''lowess'' then
             (case cont_lowess of
                None \<Rightarrow> Inl (UnboundLocalError ''cont_lowess'')
              | Some c \<Rightarrow>
                  cont_sub h snr cont_lowess rest
                    (sub_where h (\<lambda>y x. fge (snr y x) (Fin (of_int llim)) \<and> flt (snr y x) ulim) d c))
           else if src = ''ppxf'' then Inl (NameError ''cont_ppfx'')
           else cont_sub h snr cont_lowess rest d))"

text \<open>Lines 422 to 431: the gate on the line signal-to-noise, and the inputs of a row.\<close>

definition good_spaxels_elines :: "inputs \<Rightarrow> config \<Rightarrow> nat \<Rightarrow> fval list" where
  "good_spaxels_elines inp p row =
     (let g0 = replicate (NAXIS2 (header1 inp)) (Fin 1);
          g1 = gate (elines_snr_min p) flt (\<lambda>i. snr_elines inp i row) g0;
          g2 = gate (elines_snr_max p) fgt (\<lambda>i. snr_elines inp i row) g1
      in g2)"

definition specerrs :: "inputs \<Rightarrow> config \<Rightarrow> cube \<Rightarrow> nat \<Rightarrow> (spectrum \<times> spectrum) list" where
  "specerrs inp p d row =
     map (\<lambda>i. (map (\<lambda>w. fmul (d w i row) (good_spaxels_elines inp p row ! i))
                  [0..<NAXIS3 (header1 inp)],
                map (\<lambda>w. fmul (err inp w i row) (good_spaxels_elines inp p row ! i))
                  [0..<NAXIS3 (header1 inp)]))
         [0..<NAXIS2 (header1 inp)]"

text \<open>
  One pass of the loop of \<^verbatim>\<open>run_fit_elines\<close> (lines 417 to 481), on the data with
  the continuum subtracted. The fit (\<^verbatim>\<open>brian_elf.els_mpfit\<close>) is given from outside.
\<close>

definition fit_row_elines ::
  "inputs \<Rightarrow> config \<Rightarrow> (spectrum \<times> spectrum \<Rightarrow> fit_result) \<Rightarrow> (int \<Rightarrow> bool) \<Rightarrow> cube \<Rightarrow> int
     \<Rightarrow> world \<Rightarrow> error option \<times> world" where
  "fit_row_elines inp p els_mpfit cancel d row wd =
     (case py_index (NAXIS1 (header1 inp)) row of
        None \<Rightarrow>
          (if truthy (elines_snr_min p) \<or> truthy (elines_snr_max p) \<or> 0 < NAXIS2 (header1 inp)
           then (Some IndexError, wd)
           else (case dispatch (multiprocessing p)
                        ''Multiprocessing line fitting interrupted at row ''
                        (Inr els_mpfit) (cancel row) row [] (pool_log wd) of
                   (Inl e, lg) \<Rightarrow> (Some e, wd\<lparr>pool_log := lg\<rparr>)
                 | (Inr els, lg) \<Rightarrow>
                     (None, wd\<lparr>pool_log := lg, eline_files := (eline_files wd)(row \<mapsto> els)\<rparr>)))
      | Some r \<Rightarrow>
          (case dispatch (multiprocessing p)
                  ''Multiprocessing line fitting interrupted at row ''
                  (Inr els_mpfit) (cancel row) row (specerrs inp p d r) (pool_log wd) of
             (Inl e, lg) \<Rightarrow> (Some e, wd\<lparr>pool_log := lg\<rparr>)
           | (Inr els, lg) \<Rightarrow>
               (None, wd\<lparr>pool_log := lg, eline_files := (eline_files wd)(row \<mapsto> els)\<rparr>)))"

definition run_fit_elines ::
  "inputs \<Rightarrow> config \<Rightarrow> cube option \<Rightarrow> (spectrum \<times> spectrum \<Rightarrow> fit_result) \<Rightarrow> (int \<Rightarrow> bool)
     \<Rightarrow> int option \<Rightarrow> int option \<Rightarrow> world \<Rightarrow> error option \<times> world" where
  "run_fit_elines inp p cont_lowess els_mpfit cancel start_row end_row wd =
     (case cont_sub (header1 inp) (snr_cont inp) cont_lowess (which_cont_sub p) (data inp) of
        Inl e \<Rightarrow> (Some e, wd)
      | Inr d \<Rightarrow>
          (let nrows = int (NAXIS1 (header1 inp));
               start_row = (case start_row of None \<Rightarrow> 0 | Some s \<Rightarrow> s);
               end_row = (case end_row of None \<Rightarrow> nrows - 1 | Some e \<Rightarrow> e)
           in run_rows (fit_row_elines inp p els_mpfit cancel d) [start_row..end_row] wd))"

section \<open>Assembling the emission line cubes\<close>

record elines_cubes =
  elines_fullspec_cube :: cube
  elines_params_cube :: cube
  elines_params_err :: cube
  elines_fit_status :: image

text \<open>\<^verbatim>\<open>im[:,row] = np.array(stats).T\<close>\<close>

definition set_column :: "nat \<Rightarrow> image \<Rightarrow> nat \<Rightarrow> int list \<Rightarrow> error + image" where
  "set_column ny im row stats =
     (if length stats = ny
      then Inr (\<lambda>y x. if x = row \<and> y < ny then Fin (of_int (stats ! y)) else im y x)
      else Inl ValueError)"

text \<open>
  Lines 540 to 574: one pass of the loop over the rows. The reconstruction of the
  spectrum of a fit (\<^verbatim>\<open>brian_elf.els_spec\<close>) is given from outside.
\<close>

definition elines_cube_row ::
  "header \<Rightarrow> nat \<Rightarrow> (spectrum \<Rightarrow> spectrum) \<Rightarrow> (int \<rightharpoonup> fit_result list) \<Rightarrow> nat
     \<Rightarrow> elines_cubes \<Rightarrow> error + elines_cubes" where
  "elines_cube_row h nl els_spec fs row st =
     (case fs (int row) of
        None \<Rightarrow> Inr st
      | Some ms \<Rightarrow>
          (let ps = map params ms;
               errs = map perror ms;
               stats = map status ms;
               ps = map (\<lambda>(j, item). if \<not> (status item \<in> set [1, 2, 3, 4])
                                       then replicate (length (ps ! 0)) NaN else ps ! j)
                      (enumerate 0 ms);
               errs = map (\<lambda>(j, item). if \<not> (status item \<in> set [1, 2, 3, 4])
                                         then replicate (length (ps ! 0)) NaN
                                         else map (\<lambda>e. fmul e e) (errs ! j))
                        (enumerate 0 ms)
           in case set_slab (6 * nl) (NAXIS2 h) (elines_params_cube st) row ps of
                Inl e \<Rightarrow> Inl e
              | Inr pc \<Rightarrow>
             (case set_slab (6 * nl) (NAXIS2 h) (elines_params_err st) row errs of
                Inl e \<Rightarrow> Inl e
              | Inr pe \<Rightarrow>
             (case set_column (NAXIS2 h) (elines_fit_status st) row stats of
                Inl e \<Rightarrow> Inl e
              | Inr fs_map \<Rightarrow>
             (case set_slab (NAXIS3 h) (NAXIS2 h) (elines_fullspec_cube st) row
                     (map els_spec ps) of
                Inl e \<Rightarrow> Inl e
              | Inr fc \<Rightarrow>
                  Inr \<lparr>elines_fullspec_cube = fc, elines_params_cube = pc,
                       elines_params_err = pe, elines_fit_status = fs_map\<rparr>)))))"

text \<open>\<^verbatim>\<open>cube[w,:,:] = im\<close>\<close>

definition set_plane :: "header \<Rightarrow> cube \<Rightarrow> nat \<Rightarrow> image \<Rightarrow> cube" where
  "set_plane h c w im =
     (\<lambda>w' y x. if w' = w \<and> y < NAXIS2 h \<and> x < NAXIS1 h then im y x else c w' y x)"

text \<open>
  Lines 579 to 594, for the line of index \<open>k\<close>. The observed width with its variance
  (\<^verbatim>\<open>brian_elf.obs_sigma\<close>, a pair of maps) and the speed of light \<open>c\<close> are given
  from outside.
\<close>

definition line_flux :: "fval \<Rightarrow> fval \<Rightarrow> fval" where
  "line_flux amplitude sigma_obs = fmul (fmul (Fin (sqrt (2 * pi))) amplitude) sigma_obs"

definition line_flux_err :: "fval \<Rightarrow> fval \<Rightarrow> fval \<Rightarrow> fval \<Rightarrow> fval" where
  "line_flux_err amplitude_err sigma_obs sigma_obs_err amplitude =
     fmul (Fin (2 * pi))
       (fadd (fmul (fmul amplitude_err amplitude_err) sigma_obs)
             (fmul sigma_obs_err (fmul amplitude amplitude)))"

definition derive_line ::
  "header \<Rightarrow> (image \<Rightarrow> image \<Rightarrow> image \<times> image \<times> fval \<Rightarrow> image \<times> image) \<Rightarrow> real \<Rightarrow> elines_cubes
     \<Rightarrow> nat \<Rightarrow> elines_cubes" where
  "derive_line h obs_sigma c st k =
     (let pc = elines_params_cube st;
          pe = elines_params_err st;
          zlams = (\<lambda>y x. fmul (pc (6 * k) y x)
                              (fadd (Fin 1) (fdiv (pc (6 * k + 2) y x) (Fin c))));
          zlams_err = (\<lambda>y x. fdiv (fmul (fmul (pc (6 * k) y x) (pc (6 * k) y x))
                                         (pe (6 * k + 2) y x))
                                   (Fin (c * c)));
          sigma_obs_A = obs_sigma (pc (6 * k + 3)) zlams (pe (6 * k + 2), zlams_err, Fin 0);
          pc' = set_plane h pc (6 * k)
                  (\<lambda>y x. line_flux (pc (6 * k + 1) y x) (fst sigma_obs_A y x));
          pe' = set_plane h pe (6 * k)
                  (\<lambda>y x. line_flux_err (pe (6 * k + 1) y x) (fst sigma_obs_A y x)
                            (snd sigma_obs_A y x) (pc' (6 * k + 1) y x))
      in st\<lparr>elines_params_cube := pc', elines_params_err := pe'\<rparr>)"

definition nan_cubes :: elines_cubes where
  "nan_cubes = \<lparr>elines_fullspec_cube = nan_cube, elines_params_cube = nan_cube,
                elines_params_err = nan_cube, elines_fit_status = nan_image\<rparr>"

definition assemble_elines ::
  "inputs \<Rightarrow> config \<Rightarrow> (spectrum \<Rightarrow> spectrum) \<Rightarrow> world \<Rightarrow> error + elines_cubes" where
  "assemble_elines inp p els_spec wd =
     for_rows (elines_cube_row (header1 inp) (nlines p) els_spec (eline_files wd))
       [0..<NAXIS1 (header1 inp)] nan_cubes"

definition run_make_elines_cube ::
  "inputs \<Rightarrow> config \<Rightarrow> (spectrum \<Rightarrow> spectrum)
     \<Rightarrow> (image \<Rightarrow> image \<Rightarrow> image \<times> image \<times> fval \<Rightarrow> image \<times> image) \<Rightarrow> real \<Rightarrow> world
     \<Rightarrow> error + elines_cubes" where
  "run_make_elines_cube inp p els_spec obs_sigma c wd =
     (case assemble_elines inp p els_spec wd of
        Inl e \<Rightarrow> Inl e
      | Inr st \<Rightarrow> Inr (foldl (derive_line (header1 inp) obs_sigma c) st [0..<nlines p]))"

section \<open>The aperture cube\<close>

text \<open>
  An aperture is a triple \<open>(x, y, r)\<close>. \<^verbatim>\<open>flux[ys,xs]\<close> reads the reference map at
  the centres, with Python's indexing.
\<close>

type_synonym aperture = "int \<times> int \<times> real"

fun flux_at :: "nat \<Rightarrow> nat \<Rightarrow> image \<Rightarrow> aperture list \<Rightarrow> error + fval list" where
  "flux_at ny nx flux [] = Inr []"
| "flux_at ny nx flux ((x, y, r) # aps) =
     (case (py_index ny y, py_index nx x) of
        (Some j, Some i) \<Rightarrow>
          (case flux_at ny nx flux aps of Inl e \<Rightarrow> Inl e | Inr fs \<Rightarrow> Inr (flux j i # fs))
      | _ \<Rightarrow> Inl IndexError)"

text \<open>
  The order numpy sorts by: the values in increasing order, the invalid values last
  (numpy compares \<open>a < b or (b != b and a == a)\<close>).
\<close>

fun np_key :: "fval \<Rightarrow> bool \<times> real" where
  "np_key NaN = (True, 0)"
| "np_key (Fin a) = (False, a)"

record ap_cubes =
  ap_map :: image
  ap_spec_cube :: cube
  ap_spec_err :: cube

text \<open>Line 918: the disk of an aperture.\<close>

fun in_ap :: "aperture \<Rightarrow> nat \<Rightarrow> nat \<Rightarrow> bool" where
  "in_ap (x, y, r) py px = (of_int ((int px - x)\<^sup>2 + (int py - y)\<^sup>2) \<le> r\<^sup>2)"

text \<open>\<^verbatim>\<open>cube[:,yi,xi] = spec\<close>\<close>

definition set_spaxel :: "nat \<Rightarrow> spectrum \<Rightarrow> cube \<Rightarrow> nat \<times> nat \<Rightarrow> cube" where
  "set_spaxel nw spec c p =
     (\<lambda>w y x. if (y, x) = p \<and> w < nw then spec ! w else c w y x)"

text \<open>Lines 908 to 938: one pass of the loop, for the aperture \<open>ind\<close> at rank \<open>i\<close>.\<close>

definition ap_step :: "inputs \<Rightarrow> aperture list \<Rightarrow> ap_cubes \<Rightarrow> nat \<times> nat \<Rightarrow> ap_cubes" where
  "ap_step inp aps st = (\<lambda>(i, ind).
     (let h = header1 inp;
          m = (\<lambda>y x. if y < NAXIS2 h \<and> x < NAXIS1 h \<and> in_ap (aps ! ind) y x \<and> isnan (ap_map st y x)
                      then Fin (of_nat i) else ap_map st y x);
          members = filter (\<lambda>(y, x). m y x = Fin (of_nat i)) (grid (NAXIS2 h) (NAXIS1 h));
          spec = map (\<lambda>w. nansum (map (\<lambda>(y, x). data inp w y x) members)) [0..<NAXIS3 h];
          err = map (\<lambda>w. nansum (map (\<lambda>(y, x). err inp w y x) members)) [0..<NAXIS3 h]
      in \<lparr>ap_map = m,
           ap_spec_cube = foldl (set_spaxel (NAXIS3 h) spec) (ap_spec_cube st) members,
           ap_spec_err = foldl (set_spaxel (NAXIS3 h) err) (ap_spec_err st) members\<rparr>))"

definition nan_ap_cubes :: ap_cubes where
  "nan_ap_cubes = \<lparr>ap_map = nan_image, ap_spec_cube = nan_cube, ap_spec_err = nan_cube\<rparr>"

text \<open>
  Line 895: \<^verbatim>\<open>np.argsort(fs)[::-1]\<close>. The sorting routine is numpy's, called with its
  default method, which is not a stable one: it is given from outside (\<open>argsort\<close>),
  and the order it leaves equal values in is not fixed here.
\<close>

definition sort_index :: "(fval list \<Rightarrow> nat list) \<Rightarrow> fval list \<Rightarrow> nat list" where
  "sort_index argsort fs = rev (argsort fs)"

text \<open>
  \<^verbatim>\<open>run_make_ap_cube\<close> up to the end of its loop; the reference map has the
  spatial extent of the data. Unpacking an empty list of apertures raises.
\<close>

definition run_make_ap_cube ::
  "(fval list \<Rightarrow> nat list) \<Rightarrow> inputs \<Rightarrow> aperture list \<Rightarrow> image \<Rightarrow> error + ap_cubes" where
  "run_make_ap_cube argsort inp start_aps flux =
     (if start_aps = [] then Inl ValueError
      else case flux_at (NAXIS2 (header1 inp)) (NAXIS1 (header1 inp)) flux start_aps of
             Inl e \<Rightarrow> Inl e
           | Inr fs \<Rightarrow>
               Inr (foldl (ap_step inp start_aps) nan_ap_cubes
                      (enumerate 0 (sort_index argsort fs))))"

section \<open>Notions used to state the properties\<close>

text \<open>
  A threshold excludes a value when it is configured (its truth value is true) and
  the comparison holds.
\<close>

definition excluded_by :: "fval option \<Rightarrow> (fval \<Rightarrow> fval \<Rightarrow> bool) \<Rightarrow> fval \<Rightarrow> bool" where
  "excluded_by thr cmp s = (case thr of None \<Rightarrow> False | Some t \<Rightarrow> truthy (Some t) \<and> cmp s t)"


text \<open>What the pool of one row leaves in the trace when the row completes.\<close>

definition pool_trace :: "bool \<Rightarrow> int \<Rightarrow> pool_event list" where
  "pool_trace multi row = (if multi then [Created row, Closed row, Joined row] else [])"


section \<open>Example inputs\<close>

text \<open>
  A cube of two rows, two spaxels per row and two samples per spectrum; the spaxels
  with \<open>y = 0\<close> have a continuum signal-to-noise of 1, the others of 10, and the
  minimum for the first method is 3.
\<close>

definition ex_header :: header where
  "ex_header = \<lparr>NAXIS1 = 2, NAXIS2 = 2, NAXIS3 = 2\<rparr>"

definition ex_inputs :: inputs where
  "ex_inputs = \<lparr>header1 = ex_header,
                data = (\<lambda>w y x. Fin (real (w + 2 * y + 4 * x))),
                err = (\<lambda>w y x. Fin 1),
                snr_cont = (\<lambda>y x. if y = 0 then Fin 1 else Fin 10),
                snr_elines = (\<lambda>y x. Fin 5)\<rparr>"

definition ex_config :: config where
  "ex_config = \<lparr>lowess_snr_min = Some (Fin 3), lowess_snr_max = None,
                ppxf_snr_min = None, ppxf_snr_max = None,
                elines_snr_min = None, elines_snr_max = None,
                multiprocessing = True,
                which_cont_sub = [((0, None), ''lowess'')],
                nlines = 1\<rparr>"

definition ex_world :: world where
  "ex_world = \<lparr>cont_files = Map.empty, eline_files = Map.empty, pool_log = []\<rparr>"

text \<open>The same with both thresholds of the first method at zero, and with no valid
  signal-to-noise anywhere.\<close>

definition ex_config_zero :: config where
  "ex_config_zero = ex_config\<lparr>lowess_snr_min := Some (Fin 0), lowess_snr_max := Some (Fin 0)\<rparr>"

definition ex_inputs_nan :: inputs where
  "ex_inputs_nan = ex_inputs\<lparr>snr_cont := (\<lambda>y x. NaN)\<rparr>"

text \<open>The same with no continuum to subtract, and a stand-in for the line fit.\<close>

definition ex_config_nosub :: config where
  "ex_config_nosub = ex_config\<lparr>which_cont_sub := []\<rparr>"

definition ex_els_mpfit :: "spectrum \<times> spectrum \<Rightarrow> fit_result" where
  "ex_els_mpfit = (\<lambda>(spec, e). \<lparr>params = spec, perror = e, status = 1\<rparr>)"

text \<open>
  The table \<^verbatim>\<open>{'0->max': 'ppxf'}\<close> in place of \<^verbatim>\<open>{'0->max': 'lowess'}\<close>, and
  a continuum cube of ones.
\<close>

definition ex_config_ppxf :: config where
  "ex_config_ppxf = ex_config\<lparr>which_cont_sub := [((0, None), ''ppxf'')]\<rparr>"

definition ex_cont :: cube where
  "ex_cont = (\<lambda>w y x. Fin 1)"

definition converged :: "fit_result \<Rightarrow> bool" where
  "converged item = (status item \<in> set [1, 2, 3, 4])"

definition stored_params :: "fit_result \<Rightarrow> nat \<Rightarrow> fval" where
  "stored_params item w = (if converged item then params item ! w else NaN)"

definition stored_errs :: "fit_result \<Rightarrow> nat \<Rightarrow> fval" where
  "stored_errs item w =
     (if converged item then fmul (perror item ! w) (perror item ! w) else NaN)"

text \<open>The three cubes read off the checkpoint files of the first \<open>n\<close> rows.\<close>

definition params_cube_of :: "header \<Rightarrow> nat \<Rightarrow> (int \<rightharpoonup> fit_result list) \<Rightarrow> nat \<Rightarrow> cube" where
  "params_cube_of h nl fs n =
     (\<lambda>w y x. if x < n \<and> y < NAXIS2 h \<and> w < 6 * nl
               then (case fs (int x) of None \<Rightarrow> NaN | Some ms \<Rightarrow> stored_params (ms ! y) w)
               else NaN)"

definition params_err_of :: "header \<Rightarrow> nat \<Rightarrow> (int \<rightharpoonup> fit_result list) \<Rightarrow> nat \<Rightarrow> cube" where
  "params_err_of h nl fs n =
     (\<lambda>w y x. if x < n \<and> y < NAXIS2 h \<and> w < 6 * nl
               then (case fs (int x) of None \<Rightarrow> NaN | Some ms \<Rightarrow> stored_errs (ms ! y) w)
               else NaN)"

definition fit_status_of :: "header \<Rightarrow> (int \<rightharpoonup> fit_result list) \<Rightarrow> nat \<Rightarrow> image" where
  "fit_status_of h fs n =
     (\<lambda>y x. if x < n \<and> y < NAXIS2 h
             then (case fs (int x) of None \<Rightarrow> NaN | Some ms \<Rightarrow> Fin (of_int (status (ms ! y))))
             else NaN)"

definition sigma_obs_of ::
  "(image \<Rightarrow> image \<Rightarrow> image \<times> image \<times> fval \<Rightarrow> image \<times> image) \<Rightarrow> real \<Rightarrow> cube \<Rightarrow> cube \<Rightarrow> nat
     \<Rightarrow> image \<times> image" where
  "sigma_obs_of obs_sigma c pc pe k =
     obs_sigma (pc (6 * k + 3))
       (\<lambda>y x. fmul (pc (6 * k) y x) (fadd (Fin 1) (fdiv (pc (6 * k + 2) y x) (Fin c))))
       (pe (6 * k + 2),
        (\<lambda>y x. fdiv (fmul (fmul (pc (6 * k) y x) (pc (6 * k) y x)) (pe (6 * k + 2) y x))
                     (Fin (c * c))),
        Fin 0)"

definition ex_lines_inputs :: inputs where
  "ex_lines_inputs = ex_inputs\<lparr>header1 := \<lparr>NAXIS1 = 1, NAXIS2 = 2, NAXIS3 = 1\<rparr>\<rparr>"

definition ex_fit_good :: fit_result where
  "ex_fit_good = \<lparr>params = [Fin 5000, Fin 10, Fin 0, Fin 1, Fin 0, Fin 0],
                  perror = [Fin 0, Fin 3, Fin 0, Fin 0, Fin 0, Fin 0],
                  status = 1\<rparr>"

definition ex_fit_failed :: fit_result where
  "ex_fit_failed = \<lparr>params = [Fin 5000, Fin 7, Fin 0, Fin 1, Fin 0, Fin 0],
                    perror = [Fin 0, Fin 0, Fin 0, Fin 0, Fin 0, Fin 0],
                    status = 0\<rparr>"

definition ex_lines_world :: world where
  "ex_lines_world = ex_world\<lparr>eline_files := [0 \<mapsto> [ex_fit_good, ex_fit_failed]]\<rparr>"

definition ex_els_spec :: "spectrum \<Rightarrow> spectrum" where
  "ex_els_spec = (\<lambda>ps. [Fin 0])"

definition ex_obs_sigma :: "image \<Rightarrow> image \<Rightarrow> image \<times> image \<times> fval \<Rightarrow> image \<times> image" where
  "ex_obs_sigma = (\<lambda>sigma zlams in_errs. (\<lambda>y x. Fin 2, \<lambda>y x. Fin 0))"

text \<open>The speed of light, in km/s.\<close>

definition ex_c :: real where
  "ex_c = 299792.458"

text \<open>The variance the specification gives for the flux.\<close>

definition spec_flux_variance :: "real \<Rightarrow> real \<Rightarrow> real \<Rightarrow> real \<Rightarrow> real" where
  "spec_flux_variance amplitude_var sigma_obs sigma_obs_var amplitude =
     2 * pi * (amplitude_var * sigma_obs + sigma_obs_var * amplitude\<^sup>2)"

text \<open>
  The aperture at rank \<open>i\<close> of the processing order covers the spaxel; the first
  rank below \<open>m\<close> that covers it; and the state of the loop after \<open>m\<close> passes.
\<close>

definition covers_rank :: "aperture list \<Rightarrow> nat list \<Rightarrow> nat \<Rightarrow> nat \<Rightarrow> nat \<Rightarrow> bool" where
  "covers_rank aps si y x i = in_ap (aps ! (si ! i)) y x"

definition first_cover :: "aperture list \<Rightarrow> nat list \<Rightarrow> nat \<Rightarrow> nat \<Rightarrow> nat \<Rightarrow> nat option" where
  "first_cover aps si m y x = List.find (covers_rank aps si y x) [0..<m]"

definition ap_state :: "inputs \<Rightarrow> aperture list \<Rightarrow> nat list \<Rightarrow> nat \<Rightarrow> ap_cubes" where
  "ap_state inp aps si m = foldl (ap_step inp aps) nan_ap_cubes (take m (enumerate 0 si))"

text \<open>The members of the aperture of rank \<open>i\<close> in a map, and the sum of their spectra.\<close>

definition members_at :: "header \<Rightarrow> image \<Rightarrow> nat \<Rightarrow> (nat \<times> nat) list" where
  "members_at h m i = filter (\<lambda>(y, x). m y x = Fin (of_nat i)) (grid (NAXIS2 h) (NAXIS1 h))"

definition integrated :: "cube \<Rightarrow> (nat \<times> nat) list \<Rightarrow> nat \<Rightarrow> fval" where
  "integrated d members w = nansum (map (\<lambda>(y, x). d w y x) members)"

text \<open>The spaxels whose first covering rank is \<open>i\<close>.\<close>

definition members_of :: "aperture list \<Rightarrow> nat list \<Rightarrow> header \<Rightarrow> nat \<Rightarrow> (nat \<times> nat) list" where
  "members_of aps si h i =
     filter (\<lambda>(y, x). first_cover aps si (Suc i) y x = Some i) (grid (NAXIS2 h) (NAXIS1 h))"

text \<open>
  What is assumed of \<^verbatim>\<open>np.argsort\<close> on an array: its result lists the indices of the
  array, each one once, and the values at these indices are in increasing order,
  the invalid values last. Nothing is assumed of the order of equal values.
\<close>

definition is_argsort :: "fval list \<Rightarrow> nat list \<Rightarrow> bool" where
  "is_argsort fs si = (sort si = [0..<length fs] \<and> sorted (map (\<lambda>i. np_key (fs ! i)) si))"

text \<open>
  The identifier the specification gives a spaxel: the index, in the list, of the
  covering aperture that no covering aperture exceeds in peak value, the first such
  in the list.
\<close>

definition spec_ap_id :: "aperture list \<Rightarrow> fval list \<Rightarrow> nat \<Rightarrow> nat \<Rightarrow> nat option" where
  "spec_ap_id aps fs y x =
     List.find (\<lambda>j. in_ap (aps ! j) y x \<and>
                     list_all (\<lambda>j'. \<not> (in_ap (aps ! j') y x \<and> flt (fs ! j) (fs ! j')))
                       [0..<length aps])
       [0..<length aps]"

text \<open>
  A row of three spaxels. The peak values 5, 20, 10 of the specification, with
  apertures of radius 1 centred on the three spaxels; and two apertures of radius 0
  at both ends of the row, of peak values 10 and 20. In both examples the peak
  values differ from each other, so that their order is the same for every sorting
  routine; the one of the examples sorts by insertion.
\<close>

definition ex_argsort :: "fval list \<Rightarrow> nat list" where
  "ex_argsort fs = sort_key (\<lambda>i. np_key (fs ! i)) [0..<length fs]"

definition ex_ap_inputs :: inputs where
  "ex_ap_inputs = \<lparr>header1 = \<lparr>NAXIS1 = 3, NAXIS2 = 1, NAXIS3 = 1\<rparr>,
                   data = (\<lambda>w y x. if x = 1 then NaN else Fin (real x + 1)),
                   err = (\<lambda>w y x. Fin 1),
                   snr_cont = (\<lambda>y x. Fin 5),
                   snr_elines = (\<lambda>y x. Fin 5)\<rparr>"

definition ex_aps :: "aperture list" where
  "ex_aps = [(0, 0, 1), (1, 0, 1), (2, 0, 1)]"

definition ex_flux :: image where
  "ex_flux = (\<lambda>y x. if x = 0 then Fin 5 else if x = 1 then Fin 20 else Fin 10)"

definition ex_two_aps :: "aperture list" where
  "ex_two_aps = [(0, 0, 0), (2, 0, 0)]"

definition ex_two_flux :: image where
  "ex_two_flux = (\<lambda>y x. if x = 0 then Fin 10 else Fin 20)"

section \<open>Properties of the continuum stage\<close>

lemma length_mask_assign [simp]: "length (mask_assign g m v) = length g"
  by (simp add: mask_assign_def)

lemma nth_mask_assign [simp]:
  "i < length g \<Longrightarrow> mask_assign g m v ! i = (if m i then v else g ! i)"
  by (simp add: mask_assign_def)

lemma length_gate [simp]: "length (gate thr cmp snr g) = length g"
  by (simp add: gate_def split: option.splits)

lemma nth_gate:
  "i < length g \<Longrightarrow> gate thr cmp snr g ! i = (if excluded_by thr cmp (snr i) then NaN else g ! i)"
  by (simp add: gate_def excluded_by_def split: option.splits)

lemma length_good_spaxels_cont [simp]:
  "length (good_spaxels_cont inp p m row) = NAXIS2 (header1 inp)"
  by (simp add: good_spaxels_cont_def Let_def)

lemma nth_good_spaxels_cont:
  "i < NAXIS2 (header1 inp) \<Longrightarrow>
   good_spaxels_cont inp p m row ! i =
     (if excluded_by (snr_min p m) flt (snr_cont inp i row)
         \<or> excluded_by (snr_max p m) fge (snr_cont inp i row)
      then NaN else Fin 1)"
  by (simp add: good_spaxels_cont_def Let_def nth_gate)

lemma fmul_NaN_right [simp]: "fmul a NaN = NaN"
  by (cases a) simp_all

lemma fmul_one_right [simp]: "fmul a (Fin 1) = a"
  by (cases a) simp_all

lemma length_specs_cont [simp]: "length (specs_cont inp p m r) = NAXIS2 (header1 inp)"
  by (simp add: specs_cont_def)

lemma nth_specs_cont:
  "i < NAXIS2 (header1 inp) \<Longrightarrow>
   specs_cont inp p m row ! i =
     (if excluded_by (snr_min p m) flt (snr_cont inp i row)
         \<or> excluded_by (snr_max p m) fge (snr_cont inp i row)
      then replicate (NAXIS3 (header1 inp)) NaN
      else map (\<lambda>w. data inp w i row) [0..<NAXIS3 (header1 inp)])"
  by (simp add: specs_cont_def nth_good_spaxels_cont map_replicate_const)

lemma dispatch_ok:
  "dispatch multi msg (Inr f) cancel row xs lg = (Inr ys, lg') \<Longrightarrow> ys = map f xs \<and> \<not> cancel"
  by (auto simp: dispatch_def Let_def split: if_splits)

lemma py_index_nat: "0 \<le> row \<Longrightarrow> row < int n \<Longrightarrow> py_index n row = Some (nat row)"
  by (simp add: py_index_def)

lemma fit_row_continuum_ok:
  assumes "0 \<le> row" "row < int (NAXIS1 (header1 inp))" "\<not> cancel row"
  shows "fit_row_continuum inp p f cancel Lowess row wd =
           (None, wd\<lparr>pool_log := pool_log wd @ pool_trace (multiprocessing p) row,
                     cont_files := (cont_files wd)((Lowess, row) \<mapsto>
                                      map f (specs_cont inp p Lowess (nat row)))\<rparr>)"
  using assms
  by (simp add: fit_row_continuum_def py_index_nat dispatch_def pool_trace_def Let_def)

lemma fit_row_continuum_cancel:
  assumes "0 \<le> row" "row < int (NAXIS1 (header1 inp))" "cancel row" "multiprocessing p"
  shows "fit_row_continuum inp p f cancel Lowess row wd =
           (Some (SystemExit ''Multiprocessing continuum fitting interrupted at row '' row),
            wd\<lparr>pool_log := pool_log wd @ [Created row, Closed row, Joined row]\<rparr>)"
  using assms
  by (simp add: fit_row_continuum_def py_index_nat dispatch_def Let_def)

text \<open>
  C9. In the continuum stage the list of inputs of a row has one entry per spaxel,
  in the order of the spaxels, each of the length of a spectrum: the entry at
  position \<open>i\<close> is made of the samples of the spaxel \<open>i\<close> of the row, each multiplied
  by the factor of that spaxel. The entry of a spaxel whose continuum
  signal-to-noise is excluded by a configured threshold (below the minimum, or at
  or above the maximum) is the spectrum with every sample invalid; the entry of any
  other spaxel is the spectrum of that spaxel, sample by sample. This list is what
  the fit is mapped over, the checkpoint of a completed row holding the fit of each
  entry.
\<close>

theorem C9_masked_inputs_all_invalid:
  assumes "i < NAXIS2 (header1 inp)"
  shows "length (specs_cont inp p m r) = NAXIS2 (header1 inp) \<and>
         length (specs_cont inp p m r ! i) = NAXIS3 (header1 inp) \<and>
         (excluded_by (snr_min p m) flt (snr_cont inp i r) \<or>
          excluded_by (snr_max p m) fge (snr_cont inp i r)
            \<longrightarrow> specs_cont inp p m r ! i = replicate (NAXIS3 (header1 inp)) NaN) \<and>
         (py_index (NAXIS1 (header1 inp)) row = Some r \<and>
          fit_row_continuum inp p lowess_fit cancel Lowess row wd = (None, wd')
            \<longrightarrow> cont_files wd' (Lowess, row) = Some (map lowess_fit (specs_cont inp p Lowess r))) \<and>
         (\<not> excluded_by (snr_min p m) flt (snr_cont inp i r) \<and>
          \<not> excluded_by (snr_max p m) fge (snr_cont inp i r)
            \<longrightarrow> specs_cont inp p m r ! i = map (\<lambda>w. data inp w i r) [0..<NAXIS3 (header1 inp)]) \<and>
         (\<forall>w < NAXIS3 (header1 inp).
            specs_cont inp p m r ! i ! w = fmul (data inp w i r) (good_spaxels_cont inp p m r ! i)) \<and>
         specs_cont inp p m r
           = map (\<lambda>j. if excluded_by (snr_min p m) flt (snr_cont inp j r)
                          \<or> excluded_by (snr_max p m) fge (snr_cont inp j r)
                       then replicate (NAXIS3 (header1 inp)) NaN
                       else map (\<lambda>w. data inp w j r) [0..<NAXIS3 (header1 inp)])
               [0..<NAXIS2 (header1 inp)]"
proof (intro conjI impI allI)
  show "length (specs_cont inp p m r) = NAXIS2 (header1 inp)"
    by simp
  show "length (specs_cont inp p m r ! i) = NAXIS3 (header1 inp)"
    using assms by (simp add: nth_specs_cont)
  show "specs_cont inp p m r ! i = replicate (NAXIS3 (header1 inp)) NaN"
    if "excluded_by (snr_min p m) flt (snr_cont inp i r) \<or>
        excluded_by (snr_max p m) fge (snr_cont inp i r)"
    using assms that by (simp add: nth_specs_cont)
  show "cont_files wd' (Lowess, row) = Some (map lowess_fit (specs_cont inp p Lowess r))"
    if "py_index (NAXIS1 (header1 inp)) row = Some r \<and>
        fit_row_continuum inp p lowess_fit cancel Lowess row wd = (None, wd')"
    using that
    by (auto simp: fit_row_continuum_def split: prod.splits sum.splits dest!: dispatch_ok)
  show "specs_cont inp p m r ! i = map (\<lambda>w. data inp w i r) [0..<NAXIS3 (header1 inp)]"
    if "\<not> excluded_by (snr_min p m) flt (snr_cont inp i r) \<and>
        \<not> excluded_by (snr_max p m) fge (snr_cont inp i r)"
    using assms that by (simp add: nth_specs_cont)
  show "specs_cont inp p m r ! i ! w = fmul (data inp w i r) (good_spaxels_cont inp p m r ! i)"
    if "w < NAXIS3 (header1 inp)" for w
    using assms that by (simp add: specs_cont_def)
  show "specs_cont inp p m r
           = map (\<lambda>j. if excluded_by (snr_min p m) flt (snr_cont inp j r)
                          \<or> excluded_by (snr_max p m) fge (snr_cont inp j r)
                       then replicate (NAXIS3 (header1 inp)) NaN
                       else map (\<lambda>w. data inp w j r) [0..<NAXIS3 (header1 inp)])
               [0..<NAXIS2 (header1 inp)]"
    by (rule nth_equalityI) (simp_all add: nth_specs_cont)
qed

theorem C9_masked_inputs_all_invalid_witness:
  "(0::nat) < NAXIS2 (header1 ex_inputs) \<and>
   excluded_by (snr_min ex_config Lowess) flt (snr_cont ex_inputs 0 0) \<and>
   py_index (NAXIS1 (header1 ex_inputs)) 0 = Some 0 \<and>
   fit_row_continuum ex_inputs ex_config (\<lambda>s. s) (\<lambda>r. False) Lowess 0 ex_world
     = (None, ex_world\<lparr>pool_log := [Created 0, Closed 0, Joined 0],
                       cont_files := (cont_files ex_world)((Lowess, 0) \<mapsto>
                          map (\<lambda>s. s) (specs_cont ex_inputs ex_config Lowess 0))\<rparr>) \<and>
   length (specs_cont ex_inputs ex_config Lowess 0) = 2 \<and>
   specs_cont ex_inputs ex_config Lowess 0 ! 0 = [NaN, NaN] \<and>
   (1::nat) < NAXIS2 (header1 ex_inputs) \<and>
   \<not> excluded_by (snr_min ex_config Lowess) flt (snr_cont ex_inputs 1 0) \<and>
   \<not> excluded_by (snr_max ex_config Lowess) fge (snr_cont ex_inputs 1 0) \<and>
   specs_cont ex_inputs ex_config Lowess 0 ! 1 = [Fin 2, Fin 3] \<and>
   specs_cont ex_inputs ex_config Lowess 0 = [[NaN, NaN], [Fin 2, Fin 3]] \<and>
   cont_files (ex_world\<lparr>pool_log := [Created 0, Closed 0, Joined 0],
                       cont_files := (cont_files ex_world)((Lowess, 0) \<mapsto>
                          map (\<lambda>s. s) (specs_cont ex_inputs ex_config Lowess 0))\<rparr>) (Lowess, 0)
     = Some (map (\<lambda>s. s) (specs_cont ex_inputs ex_config Lowess 0))"
proof -
  have h: "(0::nat) < NAXIS2 (header1 ex_inputs)"
    by (simp add: ex_inputs_def ex_header_def)
  have e: "excluded_by (snr_min ex_config Lowess) flt (snr_cont ex_inputs 0 0)"
    by (simp add: excluded_by_def ex_config_def ex_inputs_def)
  have i: "py_index (NAXIS1 (header1 ex_inputs)) 0 = Some 0"
    by (simp add: py_index_def ex_inputs_def ex_header_def)
  have f: "fit_row_continuum ex_inputs ex_config (\<lambda>s. s) (\<lambda>r. False) Lowess 0 ex_world
     = (None, ex_world\<lparr>pool_log := [Created 0, Closed 0, Joined 0],
                       cont_files := (cont_files ex_world)((Lowess, 0) \<mapsto>
                          map (\<lambda>s. s) (specs_cont ex_inputs ex_config Lowess 0))\<rparr>)"
    using fit_row_continuum_ok [of 0 ex_inputs "\<lambda>r. False" ex_config "\<lambda>s. s" ex_world]
    by (simp add: ex_inputs_def ex_header_def pool_trace_def ex_config_def ex_world_def)
  have h1: "(1::nat) < NAXIS2 (header1 ex_inputs)"
    by (simp add: ex_inputs_def ex_header_def)
  have n: "\<not> excluded_by (snr_min ex_config Lowess) flt (snr_cont ex_inputs 1 0)"
          "\<not> excluded_by (snr_max ex_config Lowess) fge (snr_cont ex_inputs 1 0)"
    by (simp_all add: excluded_by_def ex_config_def ex_inputs_def)
  have d: "map (\<lambda>w. data ex_inputs w 1 0) [0..<NAXIS3 (header1 ex_inputs)] = [Fin 2, Fin 3]"
    by (simp add: ex_inputs_def ex_header_def upt_rec)
  note t = C9_masked_inputs_all_invalid [OF h, of ex_config Lowess 0 0 "\<lambda>s. s" "\<lambda>r. False" ex_world]
  note u = C9_masked_inputs_all_invalid [OF h1, of ex_config Lowess 0 0 "\<lambda>s. s" "\<lambda>r. False" ex_world]
  have l: "length (specs_cont ex_inputs ex_config Lowess 0) = 2"
    using t [THEN conjunct1] by (simp add: ex_inputs_def ex_header_def)
  from t [THEN conjunct2, THEN conjunct2, THEN conjunct1] e
  have a: "specs_cont ex_inputs ex_config Lowess 0 ! 0 = [NaN, NaN]"
    by (simp add: ex_inputs_def ex_header_def eval_nat_numeral)
  from u [THEN conjunct2, THEN conjunct2, THEN conjunct2, THEN conjunct2, THEN conjunct1, THEN mp,
          OF conjI, OF n]
  have b: "specs_cont ex_inputs ex_config Lowess 0 ! 1 = [Fin 2, Fin 3]"
    by (simp only: d)
  have w: "specs_cont ex_inputs ex_config Lowess 0 = [[NaN, NaN], [Fin 2, Fin 3]]"
    using l a b by (intro list_eq_iff_nth_eq [THEN iffD2]) (auto simp: less_Suc_eq eval_nat_numeral)
  from t [THEN conjunct2, THEN conjunct2, THEN conjunct2, THEN conjunct1] i f
  have c: "cont_files (ex_world\<lparr>pool_log := [Created 0, Closed 0, Joined 0],
                       cont_files := (cont_files ex_world)((Lowess, 0) \<mapsto>
                          map (\<lambda>s. s) (specs_cont ex_inputs ex_config Lowess 0))\<rparr>) (Lowess, 0)
     = Some (map (\<lambda>s. s) (specs_cont ex_inputs ex_config Lowess 0))"
    by blast
  show ?thesis
    by (intro conjI h e i f l a h1 n b w c)
qed

text \<open>
  C10. A spaxel is masked exactly when a configured minimum is strictly above its
  continuum signal-to-noise or a configured maximum is at or below it; an unmasked
  spaxel is handed over with its own samples; a spaxel with an invalid
  signal-to-noise is never masked; and a threshold of zero does not apply.
\<close>

theorem C10_gate_condition:
  assumes "i < NAXIS2 (header1 inp)"
  shows
   "(good_spaxels_cont inp p m r ! i = NaN \<longleftrightarrow>
      (\<exists>t. snr_min p m = Some t \<and> truthy (Some t) \<and> flt (snr_cont inp i r) t) \<or>
      (\<exists>t. snr_max p m = Some t \<and> truthy (Some t) \<and> fge (snr_cont inp i r) t)) \<and>
   (good_spaxels_cont inp p m r ! i \<noteq> NaN \<longrightarrow>
      good_spaxels_cont inp p m r ! i = Fin 1 \<and>
      specs_cont inp p m r ! i = map (\<lambda>w. data inp w i r) [0..<NAXIS3 (header1 inp)]) \<and>
   (isnan (snr_cont inp i r) \<longrightarrow>
      good_spaxels_cont inp p m r ! i = Fin 1 \<and>
      specs_cont inp p m r ! i = map (\<lambda>w. data inp w i r) [0..<NAXIS3 (header1 inp)]) \<and>
   (snr_min p m = Some (Fin 0) \<longrightarrow>
      (good_spaxels_cont inp p m r ! i = NaN \<longleftrightarrow>
         (\<exists>t. snr_max p m = Some t \<and> truthy (Some t) \<and> fge (snr_cont inp i r) t))) \<and>
   (snr_max p m = Some (Fin 0) \<longrightarrow>
      (good_spaxels_cont inp p m r ! i = NaN \<longleftrightarrow>
         (\<exists>t. snr_min p m = Some t \<and> truthy (Some t) \<and> flt (snr_cont inp i r) t)))"
  using assms
  by (cases "snr_cont inp i r")
     (auto simp: nth_good_spaxels_cont nth_specs_cont excluded_by_def split: option.splits)

theorem C10_gate_condition_witness:
  "(0::nat) < NAXIS2 (header1 ex_inputs_nan) \<and>
   isnan (snr_cont ex_inputs_nan 0 0) \<and>
   snr_min ex_config_zero Lowess = Some (Fin 0) \<and>
   snr_max ex_config_zero Lowess = Some (Fin 0) \<and>
   good_spaxels_cont ex_inputs_nan ex_config_zero Lowess 0 ! 0 = Fin 1 \<and>
   specs_cont ex_inputs_nan ex_config_zero Lowess 0 ! 0 = [Fin 0, Fin 1] \<and>
   (0::nat) < NAXIS2 (header1 ex_inputs) \<and>
   snr_min ex_config Lowess = Some (Fin 3) \<and> truthy (Some (Fin 3)) \<and>
   flt (snr_cont ex_inputs 0 0) (Fin 3) \<and>
   good_spaxels_cont ex_inputs ex_config Lowess 0 ! 0 = NaN"
proof -
  have h: "(0::nat) < NAXIS2 (header1 ex_inputs_nan)" "(0::nat) < NAXIS2 (header1 ex_inputs)"
    by (simp_all add: ex_inputs_nan_def ex_inputs_def ex_header_def)
  have n: "isnan (snr_cont ex_inputs_nan 0 0)"
    by (simp add: ex_inputs_nan_def)
  have z: "snr_min ex_config_zero Lowess = Some (Fin 0)" "snr_max ex_config_zero Lowess = Some (Fin 0)"
    by (simp_all add: ex_config_zero_def)
  have t: "snr_min ex_config Lowess = Some (Fin 3)" "truthy (Some (Fin 3))"
          "flt (snr_cont ex_inputs 0 0) (Fin 3)"
    by (simp_all add: ex_config_def ex_inputs_def)
  have d: "map (\<lambda>w. data ex_inputs_nan w 0 0) [0..<NAXIS3 (header1 ex_inputs_nan)] = [Fin 0, Fin 1]"
    by (simp add: ex_inputs_nan_def ex_inputs_def ex_header_def upt_rec)
  note c1 = C10_gate_condition [OF h(1), of ex_config_zero Lowess 0]
  from c1 [THEN conjunct2, THEN conjunct2, THEN conjunct1, THEN mp, OF n]
  have a: "good_spaxels_cont ex_inputs_nan ex_config_zero Lowess 0 ! 0 = Fin 1 \<and>
           specs_cont ex_inputs_nan ex_config_zero Lowess 0 ! 0 = [Fin 0, Fin 1]"
    by (simp only: d)
  note c2 = C10_gate_condition [OF h(2), of ex_config Lowess 0]
  have "(\<exists>t. snr_min ex_config Lowess = Some t \<and> truthy (Some t) \<and> flt (snr_cont ex_inputs 0 0) t) \<or>
        (\<exists>t. snr_max ex_config Lowess = Some t \<and> truthy (Some t) \<and> fge (snr_cont ex_inputs 0 0) t)"
    using t by blast
  with c2 [THEN conjunct1]
  have b: "good_spaxels_cont ex_inputs ex_config Lowess 0 ! 0 = NaN"
    by (rule iffD2)
  show ?thesis
    by (intro conjI h n z t a [THEN conjunct1] a [THEN conjunct2] b)
qed

lemma run_rows_append:
  "run_rows step (xs @ ys) wd =
     (case run_rows step xs wd of
        (Some e, wd') \<Rightarrow> (Some e, wd')
      | (None, wd') \<Rightarrow> run_rows step ys wd')"
  by (induction xs arbitrary: wd) (auto split: prod.splits option.splits)


lemma run_rows_continuum_ok:
  assumes "\<forall>row \<in> set rs. 0 \<le> row \<and> row < int (NAXIS1 (header1 inp)) \<and> \<not> cancel row"
  shows "\<exists>wd'. run_rows (fit_row_continuum inp p f cancel Lowess) rs wd = (None, wd') \<and>
           cont_files wd' = (\<lambda>key. if fst key = Lowess \<and> snd key \<in> set rs
                                    then Some (map f (specs_cont inp p Lowess (nat (snd key))))
                                    else cont_files wd key) \<and>
           eline_files wd' = eline_files wd \<and>
           pool_log wd' = pool_log wd @ concat (map (pool_trace (multiprocessing p)) rs)"
  using assms
proof (induction rs arbitrary: wd)
  case Nil
  then show ?case by simp
next
  case (Cons r rs)
  let ?wd1 = "wd\<lparr>pool_log := pool_log wd @ pool_trace (multiprocessing p) r,
                   cont_files := (cont_files wd)((Lowess, r) \<mapsto>
                                      map f (specs_cont inp p Lowess (nat r)))\<rparr>"
  have step: "fit_row_continuum inp p f cancel Lowess r wd = (None, ?wd1)"
    using Cons.prems by (intro fit_row_continuum_ok) auto
  from Cons.IH [of ?wd1] Cons.prems obtain wd' where
    run: "run_rows (fit_row_continuum inp p f cancel Lowess) rs ?wd1 = (None, wd')" and
    cf: "cont_files wd' = (\<lambda>key. if fst key = Lowess \<and> snd key \<in> set rs
                                    then Some (map f (specs_cont inp p Lowess (nat (snd key))))
                                    else cont_files ?wd1 key)" and
    ef: "eline_files wd' = eline_files ?wd1" and
    pl: "pool_log wd' = pool_log ?wd1 @ concat (map (pool_trace (multiprocessing p)) rs)"
    by auto
  have "cont_files wd' = (\<lambda>key. if fst key = Lowess \<and> snd key \<in> set (r # rs)
                                    then Some (map f (specs_cont inp p Lowess (nat (snd key))))
                                    else cont_files wd key)"
    unfolding cf by (rule ext) (auto simp: prod_eq_iff)
  with step run ef pl show ?case by simp
qed

lemma for_rows_snoc:
  "for_rows body (rows @ [r]) c =
     (case for_rows body rows c of Inl e \<Rightarrow> Inl e | Inr c1 \<Rightarrow> body r c1)"
  by (induction rows arbitrary: c) (auto split: sum.splits)








section \<open>Cancelling a run\<close>

lemma fit_row_elines_ok:
  assumes "0 \<le> row" "row < int (NAXIS1 (header1 inp))" "\<not> cancel row"
  shows "fit_row_elines inp p g cancel d row wd =
           (None, wd\<lparr>pool_log := pool_log wd @ pool_trace (multiprocessing p) row,
                     eline_files := (eline_files wd)(row \<mapsto> map g (specerrs inp p d (nat row)))\<rparr>)"
  using assms
  by (simp add: fit_row_elines_def py_index_nat dispatch_def pool_trace_def Let_def)

lemma fit_row_elines_cancel:
  assumes "0 \<le> row" "row < int (NAXIS1 (header1 inp))" "cancel row" "multiprocessing p"
  shows "fit_row_elines inp p g cancel d row wd =
           (Some (SystemExit ''Multiprocessing line fitting interrupted at row '' row),
            wd\<lparr>pool_log := pool_log wd @ [Created row, Closed row, Joined row]\<rparr>)"
  using assms
  by (simp add: fit_row_elines_def py_index_nat dispatch_def Let_def)

lemma run_rows_elines_ok:
  assumes "\<forall>row \<in> set rs. 0 \<le> row \<and> row < int (NAXIS1 (header1 inp)) \<and> \<not> cancel row"
  shows "\<exists>wd'. run_rows (fit_row_elines inp p g cancel d) rs wd = (None, wd') \<and>
           eline_files wd' = (\<lambda>row. if row \<in> set rs
                                     then Some (map g (specerrs inp p d (nat row)))
                                     else eline_files wd row) \<and>
           cont_files wd' = cont_files wd \<and>
           pool_log wd' = pool_log wd @ concat (map (pool_trace (multiprocessing p)) rs)"
  using assms
proof (induction rs arbitrary: wd)
  case Nil
  then show ?case by simp
next
  case (Cons r rs)
  let ?wd1 = "wd\<lparr>pool_log := pool_log wd @ pool_trace (multiprocessing p) r,
                   eline_files := (eline_files wd)(r \<mapsto> map g (specerrs inp p d (nat r)))\<rparr>"
  have step: "fit_row_elines inp p g cancel d r wd = (None, ?wd1)"
    using Cons.prems by (intro fit_row_elines_ok) auto
  from Cons.IH [of ?wd1] Cons.prems obtain wd' where
    run: "run_rows (fit_row_elines inp p g cancel d) rs ?wd1 = (None, wd')" and
    ef: "eline_files wd' = (\<lambda>row. if row \<in> set rs
                                     then Some (map g (specerrs inp p d (nat row)))
                                     else eline_files ?wd1 row)" and
    cf: "cont_files wd' = cont_files ?wd1" and
    pl: "pool_log wd' = pool_log ?wd1 @ concat (map (pool_trace (multiprocessing p)) rs)"
    by auto
  have "eline_files wd' = (\<lambda>row. if row \<in> set (r # rs)
                                     then Some (map g (specerrs inp p d (nat row)))
                                     else eline_files wd row)"
    unfolding ef by (rule ext) auto
  with step run cf pl show ?case by simp
qed

lemma upto_cut:
  assumes "s \<le> r" "r \<le> e"
  shows "[s..e] = [s..r - 1] @ r # [r + 1..e]"
proof -
  have "[s..e] = [s..r - 1] @ [r..e]"
    using assms by (intro upto_split1) auto
  also have "[r..e] = r # [r + 1..e]"
    using assms by (simp add: upto_rec1)
  finally show ?thesis .
qed

lemma pool_trace_upto:
  assumes "s \<le> r"
  shows "concat (map (pool_trace True) [s..r - 1]) @ [Created r, Closed r, Joined r]
           = concat (map (pool_trace True) [s..r])"
  using assms by (simp add: upto_rec2 pool_trace_def)

lemma continuum_interrupted:
  assumes mp: "multiprocessing p" and s: "0 \<le> s" "s \<le> r" "r \<le> e"
      and r: "r < int (NAXIS1 (header1 inp))"
      and c: "cancel r" "\<forall>r'. s \<le> r' \<and> r' < r \<longrightarrow> \<not> cancel r'"
  shows "\<exists>wd'. run_fit_continuum inp p f cancel (Some s) (Some e) Lowess wd =
            (Some (SystemExit ''Multiprocessing continuum fitting interrupted at row '' r), wd') \<and>
          pool_log wd' = pool_log wd @ concat (map (pool_trace True) [s..r]) \<and>
          cont_files wd' = (\<lambda>key. if fst key = Lowess \<and> s \<le> snd key \<and> snd key < r
                                   then Some (map f (specs_cont inp p Lowess (nat (snd key))))
                                   else cont_files wd key) \<and>
          eline_files wd' = eline_files wd"
proof -
  have "\<forall>row \<in> set [s..r - 1]. 0 \<le> row \<and> row < int (NAXIS1 (header1 inp)) \<and> \<not> cancel row"
    using s r c by auto
  from run_rows_continuum_ok [OF this, of p f wd] obtain wd1 where
    run: "run_rows (fit_row_continuum inp p f cancel Lowess) [s..r - 1] wd = (None, wd1)" and
    cf: "cont_files wd1 = (\<lambda>key. if fst key = Lowess \<and> snd key \<in> set [s..r - 1]
                                    then Some (map f (specs_cont inp p Lowess (nat (snd key))))
                                    else cont_files wd key)" and
    ef: "eline_files wd1 = eline_files wd" and
    pl: "pool_log wd1 = pool_log wd @ concat (map (pool_trace (multiprocessing p)) [s..r - 1])"
    by auto
  have stop: "fit_row_continuum inp p f cancel Lowess r wd1 =
           (Some (SystemExit ''Multiprocessing continuum fitting interrupted at row '' r),
            wd1\<lparr>pool_log := pool_log wd1 @ [Created r, Closed r, Joined r]\<rparr>)"
    using s r c mp by (intro fit_row_continuum_cancel) auto
  have "run_fit_continuum inp p f cancel (Some s) (Some e) Lowess wd =
          (Some (SystemExit ''Multiprocessing continuum fitting interrupted at row '' r),
            wd1\<lparr>pool_log := pool_log wd1 @ [Created r, Closed r, Joined r]\<rparr>)"
    by (simp add: run_fit_continuum_def upto_cut [OF s(2,3)] run_rows_append run stop)
  moreover have "cont_files wd1 = (\<lambda>key. if fst key = Lowess \<and> s \<le> snd key \<and> snd key < r
                                   then Some (map f (specs_cont inp p Lowess (nat (snd key))))
                                   else cont_files wd key)"
    unfolding cf by (rule ext) auto
  ultimately show ?thesis
    using ef pl mp pool_trace_upto [OF s(2)] by simp
qed

lemma elines_interrupted:
  assumes mp: "multiprocessing p" and s: "0 \<le> s" "s \<le> r" "r \<le> e"
      and r: "r < int (NAXIS1 (header1 inp))"
      and c: "cancel r" "\<forall>r'. s \<le> r' \<and> r' < r \<longrightarrow> \<not> cancel r'"
      and d: "cont_sub (header1 inp) (snr_cont inp) cont_lowess (which_cont_sub p) (data inp) = Inr d"
  shows "\<exists>wd'. run_fit_elines inp p cont_lowess g cancel (Some s) (Some e) wd =
            (Some (SystemExit ''Multiprocessing line fitting interrupted at row '' r), wd') \<and>
          pool_log wd' = pool_log wd @ concat (map (pool_trace True) [s..r]) \<and>
          eline_files wd' = (\<lambda>row. if s \<le> row \<and> row < r
                                    then Some (map g (specerrs inp p d (nat row)))
                                    else eline_files wd row) \<and>
          cont_files wd' = cont_files wd"
proof -
  have "\<forall>row \<in> set [s..r - 1]. 0 \<le> row \<and> row < int (NAXIS1 (header1 inp)) \<and> \<not> cancel row"
    using s r c by auto
  from run_rows_elines_ok [OF this, of p g d wd] obtain wd1 where
    run: "run_rows (fit_row_elines inp p g cancel d) [s..r - 1] wd = (None, wd1)" and
    ef: "eline_files wd1 = (\<lambda>row. if row \<in> set [s..r - 1]
                                     then Some (map g (specerrs inp p d (nat row)))
                                     else eline_files wd row)" and
    cf: "cont_files wd1 = cont_files wd" and
    pl: "pool_log wd1 = pool_log wd @ concat (map (pool_trace (multiprocessing p)) [s..r - 1])"
    by auto
  have stop: "fit_row_elines inp p g cancel d r wd1 =
           (Some (SystemExit ''Multiprocessing line fitting interrupted at row '' r),
            wd1\<lparr>pool_log := pool_log wd1 @ [Created r, Closed r, Joined r]\<rparr>)"
    using s r c mp by (intro fit_row_elines_cancel) auto
  have "run_fit_elines inp p cont_lowess g cancel (Some s) (Some e) wd =
          (Some (SystemExit ''Multiprocessing line fitting interrupted at row '' r),
            wd1\<lparr>pool_log := pool_log wd1 @ [Created r, Closed r, Joined r]\<rparr>)"
    by (simp add: run_fit_elines_def d upto_cut [OF s(2,3)] run_rows_append run stop)
  moreover have "eline_files wd1 = (\<lambda>row. if s \<le> row \<and> row < r
                                    then Some (map g (specerrs inp p d (nat row)))
                                    else eline_files wd row)"
    unfolding ef by (rule ext) auto
  ultimately show ?thesis
    using cf pl mp pool_trace_upto [OF s(2)] by simp
qed

text \<open>
  C6. With a pool of workers, when the user cancels during the dispatch of row
  \<open>r\<close> (and of no earlier row of the run), either fitting stage ends by
  \<^verbatim>\<open>sys.exit\<close> with the message naming row \<open>r\<close>; every pool the run created,
  the one of row \<open>r\<close> included, has been closed and joined; the checkpoint of
  each earlier row of the run holds the fits of that row; and every other
  checkpoint file, the one of row \<open>r\<close> among them, is as it was before the run.
\<close>

theorem C6_cancelled_row:
  assumes "multiprocessing p" and "0 \<le> s" "s \<le> r" "r \<le> e"
      and "r < int (NAXIS1 (header1 inp))"
      and "cancel r" "\<forall>r'. s \<le> r' \<and> r' < r \<longrightarrow> \<not> cancel r'"
  shows "(\<exists>wd'. run_fit_continuum inp p f cancel (Some s) (Some e) Lowess wd =
            (Some (SystemExit ''Multiprocessing continuum fitting interrupted at row '' r), wd') \<and>
          pool_log wd' = pool_log wd @ concat (map (pool_trace True) [s..r]) \<and>
          cont_files wd' = (\<lambda>key. if fst key = Lowess \<and> s \<le> snd key \<and> snd key < r
                                   then Some (map f (specs_cont inp p Lowess (nat (snd key))))
                                   else cont_files wd key) \<and>
          cont_files wd' (Lowess, r) = cont_files wd (Lowess, r) \<and>
          eline_files wd' = eline_files wd) \<and>
         (cont_sub (header1 inp) (snr_cont inp) cont_lowess (which_cont_sub p) (data inp) = Inr d
          \<longrightarrow>
          (\<exists>wd'. run_fit_elines inp p cont_lowess g cancel (Some s) (Some e) wd =
            (Some (SystemExit ''Multiprocessing line fitting interrupted at row '' r), wd') \<and>
          pool_log wd' = pool_log wd @ concat (map (pool_trace True) [s..r]) \<and>
          eline_files wd' = (\<lambda>row. if s \<le> row \<and> row < r
                                    then Some (map g (specerrs inp p d (nat row)))
                                    else eline_files wd row) \<and>
          eline_files wd' r = eline_files wd r \<and>
          cont_files wd' = cont_files wd))"
proof (intro conjI impI)
  from continuum_interrupted [OF assms, of f wd]
  show "\<exists>wd'. run_fit_continuum inp p f cancel (Some s) (Some e) Lowess wd =
            (Some (SystemExit ''Multiprocessing continuum fitting interrupted at row '' r), wd') \<and>
          pool_log wd' = pool_log wd @ concat (map (pool_trace True) [s..r]) \<and>
          cont_files wd' = (\<lambda>key. if fst key = Lowess \<and> s \<le> snd key \<and> snd key < r
                                   then Some (map f (specs_cont inp p Lowess (nat (snd key))))
                                   else cont_files wd key) \<and>
          cont_files wd' (Lowess, r) = cont_files wd (Lowess, r) \<and>
          eline_files wd' = eline_files wd"
    by auto
next
  assume "cont_sub (header1 inp) (snr_cont inp) cont_lowess (which_cont_sub p) (data inp) = Inr d"
  from elines_interrupted [OF assms this, of g wd]
  show "\<exists>wd'. run_fit_elines inp p cont_lowess g cancel (Some s) (Some e) wd =
            (Some (SystemExit ''Multiprocessing line fitting interrupted at row '' r), wd') \<and>
          pool_log wd' = pool_log wd @ concat (map (pool_trace True) [s..r]) \<and>
          eline_files wd' = (\<lambda>row. if s \<le> row \<and> row < r
                                    then Some (map g (specerrs inp p d (nat row)))
                                    else eline_files wd row) \<and>
          eline_files wd' r = eline_files wd r \<and>
          cont_files wd' = cont_files wd"
    by auto
qed

theorem C6_cancelled_row_witness:
  "multiprocessing ex_config_nosub \<and> (0::int) \<le> 0 \<and> (0::int) \<le> 1 \<and> (1::int) \<le> 1 \<and>
   1 < int (NAXIS1 (header1 ex_inputs)) \<and> (\<lambda>row. row = (1::int)) 1 \<and>
   cont_sub (header1 ex_inputs) (snr_cont ex_inputs) None (which_cont_sub ex_config_nosub)
     (data ex_inputs) = Inr (data ex_inputs) \<and>
   (\<exists>wd'. run_fit_continuum ex_inputs ex_config_nosub (\<lambda>s. s) (\<lambda>row. row = 1) (Some 0) (Some 1)
             Lowess ex_world =
            (Some (SystemExit ''Multiprocessing continuum fitting interrupted at row '' 1), wd') \<and>
          pool_log wd' = [Created 0, Closed 0, Joined 0, Created 1, Closed 1, Joined 1] \<and>
          cont_files wd' (Lowess, 0) = Some (specs_cont ex_inputs ex_config_nosub Lowess 0) \<and>
          cont_files wd' (Lowess, 1) = None) \<and>
   (\<exists>wd'. run_fit_elines ex_inputs ex_config_nosub None ex_els_mpfit (\<lambda>row. row = 1)
             (Some 0) (Some 1) ex_world =
            (Some (SystemExit ''Multiprocessing line fitting interrupted at row '' 1), wd') \<and>
          pool_log wd' = [Created 0, Closed 0, Joined 0, Created 1, Closed 1, Joined 1] \<and>
          eline_files wd' 0
            = Some (map ex_els_mpfit (specerrs ex_inputs ex_config_nosub (data ex_inputs) 0)) \<and>
          eline_files wd' 1 = None)"
proof -
  have m: "multiprocessing ex_config_nosub"
    by (simp add: ex_config_nosub_def ex_config_def)
  have r: "1 < int (NAXIS1 (header1 ex_inputs))"
    by (simp add: ex_inputs_def ex_header_def)
  have c: "(\<lambda>row. row = (1::int)) 1" "\<forall>r'. (0::int) \<le> r' \<and> r' < 1 \<longrightarrow> \<not> (\<lambda>row. row = (1::int)) r'"
    by simp_all
  have d: "cont_sub (header1 ex_inputs) (snr_cont ex_inputs) None (which_cont_sub ex_config_nosub)
             (data ex_inputs) = Inr (data ex_inputs)"
    by (simp add: ex_config_nosub_def)
  have l: "pool_log ex_world @ concat (map (pool_trace True) [0..1])
             = [Created 0, Closed 0, Joined 0, Created 1, Closed 1, Joined 1]"
    by (simp add: ex_world_def upto_rec1 pool_trace_def)
  have s: "(0::int) \<le> 0" "(0::int) \<le> 1" "(1::int) \<le> 1"
    by simp_all
  note t = C6_cancelled_row [where f = "\<lambda>s. s" and wd = ex_world and cont_lowess = None
                               and d = "data ex_inputs" and g = ex_els_mpfit,
                             OF m s(1) s(2) s(3) r c]
  have t1: "\<exists>wd'. run_fit_continuum ex_inputs ex_config_nosub (\<lambda>s. s) (\<lambda>row. row = 1) (Some 0) (Some 1)
             Lowess ex_world =
            (Some (SystemExit ''Multiprocessing continuum fitting interrupted at row '' 1), wd') \<and>
          pool_log wd' = [Created 0, Closed 0, Joined 0, Created 1, Closed 1, Joined 1] \<and>
          cont_files wd' (Lowess, 0) = Some (specs_cont ex_inputs ex_config_nosub Lowess 0) \<and>
          cont_files wd' (Lowess, 1) = None"
    using t [THEN conjunct1] unfolding l by (auto simp: ex_world_def)
  have t2: "\<exists>wd'. run_fit_elines ex_inputs ex_config_nosub None ex_els_mpfit (\<lambda>row. row = 1)
             (Some 0) (Some 1) ex_world =
            (Some (SystemExit ''Multiprocessing line fitting interrupted at row '' 1), wd') \<and>
          pool_log wd' = [Created 0, Closed 0, Joined 0, Created 1, Closed 1, Joined 1] \<and>
          eline_files wd' 0
            = Some (map ex_els_mpfit (specerrs ex_inputs ex_config_nosub (data ex_inputs) 0)) \<and>
          eline_files wd' 1 = None"
    using t [THEN conjunct2, THEN mp, OF d] unfolding l by (auto simp: ex_world_def)
  show ?thesis
    using m r d t1 t2 by simp
qed

section \<open>The continuum subtraction\<close>

lemma nanmax_ex: "nanmax (NAXIS2 ex_header) (NAXIS1 ex_header) (snr_cont ex_inputs) = Inr (Fin 10)"
  by (simp add: nanmax_def grid_def ex_header_def ex_inputs_def upt_rec)

text \<open>
  C7, at the table \<open>{'0->max': 'ppxf'}\<close>: the subtraction raises
  \<^verbatim>\<open>NameError\<close> for the name \<^verbatim>\<open>cont_ppfx\<close>, and the stage ends there with no row
  fitted; with the source \<open>'lowess'\<close> in the same table the continuum is subtracted
  from every spaxel of the range.
\<close>

theorem C7_ppxf_source_raises:
  "run_fit_elines ex_inputs ex_config_ppxf (Some ex_cont) ex_els_mpfit (\<lambda>r. False) None None ex_world
     = (Some (NameError ''cont_ppfx''), ex_world) \<and>
   (\<exists>d. cont_sub (header1 ex_inputs) (snr_cont ex_inputs) (Some ex_cont) (which_cont_sub ex_config)
          (data ex_inputs) = Inr d \<and>
        d 1 1 1 = fsub (data ex_inputs 1 1 1) (ex_cont 1 1 1) \<and>
        d 1 1 1 = Fin 6)"
proof
  have "cont_sub ex_header (snr_cont ex_inputs) (Some ex_cont) [((0, None), ''ppxf'')] (data ex_inputs)
     = Inl (NameError ''cont_ppfx'')"
    by (simp add: nanmax_ex)
  then show "run_fit_elines ex_inputs ex_config_ppxf (Some ex_cont) ex_els_mpfit (\<lambda>r. False)
               None None ex_world = (Some (NameError ''cont_ppfx''), ex_world)"
    by (simp add: run_fit_elines_def ex_config_ppxf_def ex_inputs_def)
next
  have "cont_sub ex_header (snr_cont ex_inputs) (Some ex_cont) [((0, None), ''lowess'')] (data ex_inputs)
     = Inr (sub_where ex_header
              (\<lambda>y x. fge (snr_cont ex_inputs y x) (Fin 0) \<and> flt (snr_cont ex_inputs y x) (Fin 11))
              (data ex_inputs) ex_cont)"
    by (simp add: nanmax_ex)
  moreover have "sub_where ex_header
              (\<lambda>y x. fge (snr_cont ex_inputs y x) (Fin 0) \<and> flt (snr_cont ex_inputs y x) (Fin 11))
              (data ex_inputs) ex_cont 1 1 1 = Fin 6"
    by (simp add: sub_where_def ex_header_def ex_inputs_def ex_cont_def)
  moreover have "fsub (data ex_inputs 1 1 1) (ex_cont 1 1 1) = Fin 6"
    by (simp add: ex_inputs_def ex_cont_def)
  ultimately show "\<exists>d. cont_sub (header1 ex_inputs) (snr_cont ex_inputs) (Some ex_cont)
          (which_cont_sub ex_config) (data ex_inputs) = Inr d \<and>
        d 1 1 1 = fsub (data ex_inputs 1 1 1) (ex_cont 1 1 1) \<and>
        d 1 1 1 = Fin 6"
    by (simp add: ex_config_def ex_inputs_def)
qed

section \<open>The assembled emission line cubes\<close>

lemma set_slab_Inr:
  assumes "set_slab nw ny c row rows = Inr c'"
  shows "length rows = ny" "\<forall>s \<in> set rows. length s = nw"
        "c' = (\<lambda>w y x. if x = row \<and> y < ny \<and> w < nw then rows ! y ! w else c w y x)"
  using assms by (auto simp: set_slab_def list_all_iff split: if_splits)

lemma set_column_Inr:
  assumes "set_column ny im row stats = Inr im'"
  shows "length stats = ny"
        "im' = (\<lambda>y x. if x = row \<and> y < ny then Fin (of_int (stats ! y)) else im y x)"
  using assms by (auto simp: set_column_def split: if_splits)

lemma elines_cube_row_None:
  "fs (int row) = None \<Longrightarrow> elines_cube_row h nl es fs row st = Inr st"
  by (simp add: elines_cube_row_def)

lemma elines_cube_row_Some:
  assumes f: "fs (int row) = Some ms"
      and r: "elines_cube_row h nl es fs row st = Inr st'"
  shows "length ms = NAXIS2 h"
    and "elines_params_cube st' =
           (\<lambda>w y x. if x = row \<and> y < NAXIS2 h \<and> w < 6 * nl then stored_params (ms ! y) w
                     else elines_params_cube st w y x)"
    and "elines_params_err st' =
           (\<lambda>w y x. if x = row \<and> y < NAXIS2 h \<and> w < 6 * nl then stored_errs (ms ! y) w
                     else elines_params_err st w y x)"
    and "elines_fit_status st' =
           (\<lambda>y x. if x = row \<and> y < NAXIS2 h then Fin (of_int (status (ms ! y)))
                   else elines_fit_status st y x)"
proof -
  define ps where "ps = map (\<lambda>(j, item). if \<not> (status item \<in> set [1, 2, 3, 4])
                                       then replicate (length (map params ms ! 0)) NaN
                                       else map params ms ! j) (enumerate 0 ms)"
  define errs where "errs = map (\<lambda>(j, item). if \<not> (status item \<in> set [1, 2, 3, 4])
                                         then replicate (length (ps ! 0)) NaN
                                         else map (\<lambda>e. fmul e e) (map perror ms ! j))
                                (enumerate 0 ms)"
  have unf: "elines_cube_row h nl es fs row st =
     (case set_slab (6 * nl) (NAXIS2 h) (elines_params_cube st) row ps of
        Inl e \<Rightarrow> Inl e
      | Inr pc \<Rightarrow>
     (case set_slab (6 * nl) (NAXIS2 h) (elines_params_err st) row errs of
        Inl e \<Rightarrow> Inl e
      | Inr pe \<Rightarrow>
     (case set_column (NAXIS2 h) (elines_fit_status st) row (map status ms) of
        Inl e \<Rightarrow> Inl e
      | Inr sm \<Rightarrow>
     (case set_slab (NAXIS3 h) (NAXIS2 h) (elines_fullspec_cube st) row (map es ps) of
        Inl e \<Rightarrow> Inl e
      | Inr fc \<Rightarrow>
          Inr \<lparr>elines_fullspec_cube = fc, elines_params_cube = pc,
               elines_params_err = pe, elines_fit_status = sm\<rparr>))))"
    unfolding elines_cube_row_def Let_def errs_def ps_def f by simp
  from r [unfolded unf] obtain pc pe sm fc where
    pc: "set_slab (6 * nl) (NAXIS2 h) (elines_params_cube st) row ps = Inr pc" and
    pe: "set_slab (6 * nl) (NAXIS2 h) (elines_params_err st) row errs = Inr pe" and
    sm: "set_column (NAXIS2 h) (elines_fit_status st) row (map status ms) = Inr sm" and
    st': "st' = \<lparr>elines_fullspec_cube = fc, elines_params_cube = pc,
                 elines_params_err = pe, elines_fit_status = sm\<rparr>"
    by (auto split: sum.splits)
  have len_ps: "length ps = length ms" and len_errs: "length errs = length ms"
    by (simp_all add: ps_def errs_def)
  show len: "length ms = NAXIS2 h"
    using set_slab_Inr(1) [OF pc] len_ps by simp
  have ps_len: "\<forall>s \<in> set ps. length s = 6 * nl" and errs_len: "\<forall>s \<in> set errs. length s = 6 * nl"
    using set_slab_Inr(2) [OF pc] set_slab_Inr(2) [OF pe] by auto
  have ps_nth: "ps ! y = (if converged (ms ! y) then params (ms ! y)
                          else replicate (length (params (ms ! 0))) NaN)" if "y < length ms" for y
  proof -
    from that have "map params ms ! 0 = params (ms ! 0)"
      by (cases ms) simp_all
    with that show ?thesis
      by (simp add: ps_def nth_enumerate_eq converged_def)
  qed
  have errs_nth: "errs ! y = (if converged (ms ! y) then map (\<lambda>e. fmul e e) (perror (ms ! y))
                          else replicate (length (ps ! 0)) NaN)" if "y < length ms" for y
    using that by (simp add: errs_def nth_enumerate_eq converged_def)
  have p: "ps ! y ! w = stored_params (ms ! y) w" if "y < length ms" "w < 6 * nl" for y w
  proof (cases "converged (ms ! y)")
    case True
    then show ?thesis using that by (simp add: ps_nth stored_params_def)
  next
    case False
    have "length (ps ! y) = 6 * nl"
      using ps_len that len_ps by (metis nth_mem)
    with False that have "length (params (ms ! 0)) = 6 * nl"
      by (simp add: ps_nth)
    with False that show ?thesis
      by (simp add: ps_nth stored_params_def)
  qed
  have e: "errs ! y ! w = stored_errs (ms ! y) w" if "y < length ms" "w < 6 * nl" for y w
  proof (cases "converged (ms ! y)")
    case True
    have "length (errs ! y) = 6 * nl"
      using errs_len that len_errs by (metis nth_mem)
    with True that have "w < length (perror (ms ! y))"
      by (simp add: errs_nth)
    with True that show ?thesis
      by (simp add: errs_nth stored_errs_def)
  next
    case False
    have "length (errs ! y) = 6 * nl"
      using errs_len that len_errs by (metis nth_mem)
    with False that have "length (ps ! 0) = 6 * nl"
      by (simp add: errs_nth)
    with False that show ?thesis
      by (simp add: errs_nth stored_errs_def)
  qed
  show "elines_params_cube st' =
           (\<lambda>w y x. if x = row \<and> y < NAXIS2 h \<and> w < 6 * nl then stored_params (ms ! y) w
                     else elines_params_cube st w y x)"
    unfolding st' set_slab_Inr(3) [OF pc] using p len by (auto simp: fun_eq_iff)
  show "elines_params_err st' =
           (\<lambda>w y x. if x = row \<and> y < NAXIS2 h \<and> w < 6 * nl then stored_errs (ms ! y) w
                     else elines_params_err st w y x)"
    unfolding st' set_slab_Inr(3) [OF pe] using e len by (auto simp: fun_eq_iff)
  show "elines_fit_status st' =
           (\<lambda>y x. if x = row \<and> y < NAXIS2 h then Fin (of_int (status (ms ! y)))
                   else elines_fit_status st y x)"
    unfolding st' set_column_Inr(2) [OF sm] using len by (auto simp: fun_eq_iff)
qed

lemma elines_cube_rows:
  assumes "for_rows (elines_cube_row h nl es fs) [0..<n] nan_cubes = Inr st"
  shows "elines_params_cube st = params_cube_of h nl fs n \<and>
         elines_params_err st = params_err_of h nl fs n \<and>
         elines_fit_status st = fit_status_of h fs n \<and>
         (\<forall>x < n. \<forall>ms. fs (int x) = Some ms \<longrightarrow> length ms = NAXIS2 h)"
  using assms
proof (induction n arbitrary: st)
  case 0
  then show ?case
    by (auto simp: nan_cubes_def nan_cube_def nan_image_def params_cube_of_def
          params_err_of_def fit_status_of_def)
next
  case (Suc n)
  from Suc.prems obtain st1 where
    st1: "for_rows (elines_cube_row h nl es fs) [0..<n] nan_cubes = Inr st1" and
    st: "elines_cube_row h nl es fs n st1 = Inr st"
    by (auto simp: for_rows_snoc split: sum.splits)
  note ih = Suc.IH [OF st1]
  show ?case
  proof (cases "fs (int n)")
    case None
    with st have "st = st1" by (simp add: elines_cube_row_None)
    with ih None show ?thesis
      by (auto simp: params_cube_of_def params_err_of_def fit_status_of_def fun_eq_iff
            less_Suc_eq)
  next
    case (Some ms)
    note row = elines_cube_row_Some [OF Some st]
    have "elines_params_cube st = params_cube_of h nl fs (Suc n)"
      unfolding row(2) using ih Some
      by (auto simp: params_cube_of_def fun_eq_iff less_Suc_eq)
    moreover have "elines_params_err st = params_err_of h nl fs (Suc n)"
      unfolding row(3) using ih Some
      by (auto simp: params_err_of_def fun_eq_iff less_Suc_eq)
    moreover have "elines_fit_status st = fit_status_of h fs (Suc n)"
      unfolding row(4) using ih Some
      by (auto simp: fit_status_of_def fun_eq_iff less_Suc_eq)
    moreover have "\<forall>x < Suc n. \<forall>ms. fs (int x) = Some ms \<longrightarrow> length ms = NAXIS2 h"
      using ih row(1) Some by (auto simp: less_Suc_eq)
    ultimately show ?thesis by simp
  qed
qed

section \<open>The derived line flux\<close>

lemma block_div: "j < 6 \<Longrightarrow> (6 * n + j) div 6 = (n::nat)"
  by simp

lemma block_start: "w mod 6 = 0 \<Longrightarrow> w div 6 = n \<longleftrightarrow> w = 6 * (n::nat)"
  by auto

lemma derive_lines:
  fixes st0 :: elines_cubes
  defines "pc0 \<equiv> elines_params_cube st0" and "pe0 \<equiv> elines_params_err st0"
  shows "foldl (derive_line h os c) st0 [0..<n] =
           st0\<lparr>elines_params_cube :=
                 (\<lambda>w y x. if w mod 6 = 0 \<and> w div 6 < n \<and> y < NAXIS2 h \<and> x < NAXIS1 h
                           then line_flux (pc0 (w + 1) y x)
                                  (fst (sigma_obs_of os c pc0 pe0 (w div 6)) y x)
                           else pc0 w y x),
               elines_params_err :=
                 (\<lambda>w y x. if w mod 6 = 0 \<and> w div 6 < n \<and> y < NAXIS2 h \<and> x < NAXIS1 h
                           then line_flux_err (pe0 (w + 1) y x)
                                  (fst (sigma_obs_of os c pc0 pe0 (w div 6)) y x)
                                  (snd (sigma_obs_of os c pc0 pe0 (w div 6)) y x)
                                  (pc0 (w + 1) y x)
                           else pe0 w y x)\<rparr>"
    (is "?L n = st0\<lparr>elines_params_cube := ?P n, elines_params_err := ?E n\<rparr>")
proof (induction n)
  case 0
  then show ?case by (simp add: pc0_def pe0_def)
next
  case (Suc n)
  define Pn where "Pn = ?P n"
  define En where "En = ?E n"
  have ih: "?L n = st0\<lparr>elines_params_cube := Pn, elines_params_err := En\<rparr>"
    unfolding Pn_def En_def by (rule Suc.IH)
  have P: "Pn (6 * n + j) = pc0 (6 * n + j)" if "j < 6" for j
    using that unfolding Pn_def by (simp add: fun_eq_iff block_div)
  have E: "En (6 * n + j) = pe0 (6 * n + j)" if "j < 6" for j
    using that unfolding En_def by (simp add: fun_eq_iff block_div)
  have P0: "Pn (6 * n) = pc0 (6 * n)" and E0: "En (6 * n) = pe0 (6 * n)"
    using P [of 0] E [of 0] by simp_all
  have P1: "Pn (Suc (6 * n)) = pc0 (Suc (6 * n))"
    and P2: "Pn (Suc (Suc (6 * n))) = pc0 (Suc (Suc (6 * n)))"
    and E1: "En (Suc (6 * n)) = pe0 (Suc (6 * n))"
    and E2: "En (Suc (Suc (6 * n))) = pe0 (Suc (Suc (6 * n)))"
    using P [of 1] P [of 2] E [of 1] E [of 2] by simp_all
  have step: "derive_line h os c (st0\<lparr>elines_params_cube := Pn, elines_params_err := En\<rparr>) n
          = st0\<lparr>elines_params_cube :=
                  set_plane h Pn (6 * n)
                    (\<lambda>y x. line_flux (pc0 (6 * n + 1) y x) (fst (sigma_obs_of os c pc0 pe0 n) y x)),
                elines_params_err :=
                  set_plane h En (6 * n)
                    (\<lambda>y x. line_flux_err (pe0 (6 * n + 1) y x)
                              (fst (sigma_obs_of os c pc0 pe0 n) y x)
                              (snd (sigma_obs_of os c pc0 pe0 n) y x)
                              (pc0 (6 * n + 1) y x))\<rparr>"
    unfolding derive_line_def Let_def sigma_obs_of_def
    by (simp add: P0 E0 P1 P2 P [of 3] E1 E2 set_plane_def)
  have Pn': "set_plane h Pn (6 * n)
              (\<lambda>y x. line_flux (pc0 (6 * n + 1) y x) (fst (sigma_obs_of os c pc0 pe0 n) y x))
            = ?P (Suc n)"
    unfolding Pn_def by (auto simp: set_plane_def fun_eq_iff less_Suc_eq block_start)
  have En': "set_plane h En (6 * n)
                    (\<lambda>y x. line_flux_err (pe0 (6 * n + 1) y x)
                              (fst (sigma_obs_of os c pc0 pe0 n) y x)
                              (snd (sigma_obs_of os c pc0 pe0 n) y x)
                              (pc0 (6 * n + 1) y x))
            = ?E (Suc n)"
    unfolding En_def by (auto simp: set_plane_def fun_eq_iff less_Suc_eq block_start)
  have "?L (Suc n) = derive_line h os c (?L n) n"
    by simp
  also have "\<dots> = st0\<lparr>elines_params_cube := ?P (Suc n), elines_params_err := ?E (Suc n)\<rparr>"
    unfolding ih step Pn' En' ..
  finally show ?case .
qed

section \<open>Properties of the emission line cubes\<close>

lemma assembled_values:
  assumes "assemble_elines inp p es wd = Inr st"
  shows "elines_params_cube st
           = params_cube_of (header1 inp) (nlines p) (eline_files wd) (NAXIS1 (header1 inp))"
    and "elines_params_err st
           = params_err_of (header1 inp) (nlines p) (eline_files wd) (NAXIS1 (header1 inp))"
    and "elines_fit_status st
           = fit_status_of (header1 inp) (eline_files wd) (NAXIS1 (header1 inp))"
  using elines_cube_rows [OF assms [unfolded assemble_elines_def]] by simp_all

lemma run_make_elines_cube_eq:
  "assemble_elines inp p es wd = Inr st \<Longrightarrow>
   run_make_elines_cube inp p es os c wd
     = Inr (foldl (derive_line (header1 inp) os c) st [0..<nlines p])"
  by (simp add: run_make_elines_cube_def)

lemma line_flux_NaN [simp]: "line_flux NaN s = NaN"
  by (simp add: line_flux_def)

lemma line_flux_err_NaN [simp]: "line_flux_err NaN s v a = NaN"
  by (simp add: line_flux_err_def)

lemma line_flux_Fin [simp]: "line_flux (Fin a) (Fin s) = Fin (sqrt (2 * pi) * a * s)"
  by (simp add: line_flux_def)

lemma slot_in_block:
  assumes "w < 6 * (nl::nat)" "w mod 6 = 0"
  shows "w div 6 < nl" "w + 1 < 6 * nl"
  using assms by auto

text \<open>
  C3. When the cubes are assembled, a spaxel of a row with a checkpoint file has
  its numeric status in the status map. If the status is not one of 1, 2, 3, 4,
  every slot of the spaxel in the parameter cube and in the error cube is invalid
  (so not zero), and stays invalid in the cubes written out after the fluxes are
  derived. If the status is one of them, the parameter cube holds the fitted
  parameters and the error cube the squares of their errors.
\<close>

theorem C3_failed_fit_slots_invalid:
  assumes "assemble_elines inp p es wd = Inr st"
      and "x < NAXIS1 (header1 inp)" "y < NAXIS2 (header1 inp)" "w < 6 * nlines p"
      and "eline_files wd (int x) = Some ms"
  shows "elines_fit_status st y x = Fin (of_int (status (ms ! y))) \<and>
         (status (ms ! y) \<notin> {1, 2, 3, 4} \<longrightarrow>
            elines_params_cube st w y x = NaN \<and> elines_params_err st w y x = NaN \<and>
            elines_params_cube st w y x \<noteq> Fin 0 \<and> elines_params_err st w y x \<noteq> Fin 0 \<and>
            (\<exists>out. run_make_elines_cube inp p es os c wd = Inr out \<and>
                   elines_params_cube out w y x = NaN \<and> elines_params_err out w y x = NaN \<and>
                   elines_fit_status out y x = Fin (of_int (status (ms ! y))))) \<and>
         (status (ms ! y) \<in> {1, 2, 3, 4} \<longrightarrow>
            elines_params_cube st w y x = params (ms ! y) ! w \<and>
            elines_params_err st w y x = fmul (perror (ms ! y) ! w) (perror (ms ! y) ! w))"
proof -
  note v = assembled_values [OF assms(1)]
  have c: "converged (ms ! y) \<longleftrightarrow> status (ms ! y) \<in> {1, 2, 3, 4}"
    by (simp add: converged_def)
  have s: "elines_fit_status st y x = Fin (of_int (status (ms ! y)))"
    using assms by (simp add: v fit_status_of_def)
  have pc: "elines_params_cube st w' y x = stored_params (ms ! y) w'" if "w' < 6 * nlines p" for w'
    using assms that by (simp add: v params_cube_of_def)
  have pe: "elines_params_err st w' y x = stored_errs (ms ! y) w'" if "w' < 6 * nlines p" for w'
    using assms that by (simp add: v params_err_of_def)
  have out: "elines_params_cube (foldl (derive_line (header1 inp) os c) st [0..<nlines p]) w y x = NaN \<and>
             elines_params_err (foldl (derive_line (header1 inp) os c) st [0..<nlines p]) w y x = NaN \<and>
             elines_fit_status (foldl (derive_line (header1 inp) os c) st [0..<nlines p]) y x
               = Fin (of_int (status (ms ! y)))"
    if nc: "status (ms ! y) \<notin> {1, 2, 3, 4}"
  proof (cases "w mod 6 = 0")
    case True
    note b = slot_in_block [OF assms(4) True]
    from nc c have "elines_params_cube st (w + 1) y x = NaN" "elines_params_err st (w + 1) y x = NaN"
      using pc [OF b(2)] pe [OF b(2)] by (simp_all add: stored_params_def stored_errs_def)
    then show ?thesis
      using True b assms s by (simp add: derive_lines)
  next
    case False
    from nc c have "elines_params_cube st w y x = NaN" "elines_params_err st w y x = NaN"
      using pc [OF assms(4)] pe [OF assms(4)] by (simp_all add: stored_params_def stored_errs_def)
    then show ?thesis
      using False s by (simp add: derive_lines)
  qed
  show ?thesis
    using s c pc [OF assms(4)] pe [OF assms(4)] out run_make_elines_cube_eq [OF assms(1), of os c]
    by (auto simp: stored_params_def stored_errs_def)
qed

lemma ex_lines_assembled:
  "\<exists>st. assemble_elines ex_lines_inputs ex_config ex_els_spec ex_lines_world = Inr st"
  by (simp add: assemble_elines_def ex_lines_inputs_def ex_config_def ex_lines_world_def
        ex_world_def elines_cube_row_def set_slab_def set_column_def ex_fit_good_def
        ex_fit_failed_def ex_els_spec_def Let_def upt_rec)

theorem C3_failed_fit_slots_invalid_witness:
  "\<exists>st. assemble_elines ex_lines_inputs ex_config ex_els_spec ex_lines_world = Inr st \<and>
        (0::nat) < NAXIS1 (header1 ex_lines_inputs) \<and> (1::nat) < NAXIS2 (header1 ex_lines_inputs) \<and>
        (1::nat) < 6 * nlines ex_config \<and>
        eline_files ex_lines_world (int 0) = Some [ex_fit_good, ex_fit_failed] \<and>
        status ([ex_fit_good, ex_fit_failed] ! 1) \<notin> {1, 2, 3, 4} \<and>
        status ([ex_fit_good, ex_fit_failed] ! 0) \<in> {1, 2, 3, 4} \<and>
        elines_fit_status st 1 0 = Fin 0 \<and>
        elines_params_cube st 1 1 0 = NaN \<and> elines_params_err st 1 1 0 = NaN \<and>
        elines_fit_status st 0 0 = Fin 1 \<and>
        elines_params_cube st 1 0 0 = Fin 10 \<and> elines_params_err st 1 0 0 = Fin 9"
proof -
  from ex_lines_assembled obtain st where
    st: "assemble_elines ex_lines_inputs ex_config ex_els_spec ex_lines_world = Inr st" ..
  have h: "(0::nat) < NAXIS1 (header1 ex_lines_inputs)" "(1::nat) < NAXIS2 (header1 ex_lines_inputs)"
          "(0::nat) < NAXIS2 (header1 ex_lines_inputs)"
          "(1::nat) < 6 * nlines ex_config"
          "eline_files ex_lines_world (int 0) = Some [ex_fit_good, ex_fit_failed]"
    by (simp_all add: ex_lines_inputs_def ex_config_def ex_lines_world_def)
  have s: "status ([ex_fit_good, ex_fit_failed] ! 1) \<notin> {1, 2, 3, 4}"
          "status ([ex_fit_good, ex_fit_failed] ! 0) \<in> {1, 2, 3, 4}"
    by (simp_all add: ex_fit_good_def ex_fit_failed_def)
  from C3_failed_fit_slots_invalid [OF st h(1) h(2) h(4) h(5), of ex_obs_sigma 1] s(1)
  have a: "elines_fit_status st 1 0 = Fin 0 \<and>
           elines_params_cube st 1 1 0 = NaN \<and> elines_params_err st 1 1 0 = NaN"
    by (simp add: ex_fit_failed_def)
  from C3_failed_fit_slots_invalid [OF st h(1) h(3) h(4) h(5), of ex_obs_sigma 1] s(2)
  have b: "elines_fit_status st 0 0 = Fin 1 \<and>
           elines_params_cube st 1 0 0 = Fin 10 \<and> elines_params_err st 1 0 0 = Fin 9"
    by (simp add: ex_fit_good_def)
  from st h s a b show ?thesis by blast
qed

subsection \<open>The value of the flux for an amplitude of 10 and a width of 2\<close>

lemma arctan_partial_sums:
  fixes x :: real
  assumes "0 < x" "x \<le> 1"
  shows "(\<Sum>i<2 * n. (- 1) ^ i * (1 / real (i * 2 + 1) * x ^ (i * 2 + 1))) \<le> arctan x"
    and "arctan x \<le> (\<Sum>i<2 * n + 1. (- 1) ^ i * (1 / real (i * 2 + 1) * x ^ (i * 2 + 1)))"
proof -
  have x: "\<bar>x\<bar> \<le> 1" using assms by simp
  have pos: "0 < 1 / real (0 * 2 + 1) * x ^ (0 * 2 + 1)" using assms by simp
  from summable_Leibniz(2) [OF zeroseq_arctan_series [OF x] monoseq_arctan_series [OF x]] pos
  have "arctan x \<in> {(\<Sum>i<2 * n. (- 1) ^ i * (1 / real (i * 2 + 1) * x ^ (i * 2 + 1))) ..
                     (\<Sum>i<2 * n + 1. (- 1) ^ i * (1 / real (i * 2 + 1) * x ^ (i * 2 + 1)))}"
    unfolding arctan_series [OF x] by blast
  then show "(\<Sum>i<2 * n. (- 1) ^ i * (1 / real (i * 2 + 1) * x ^ (i * 2 + 1))) \<le> arctan x"
    and "arctan x \<le> (\<Sum>i<2 * n + 1. (- 1) ^ i * (1 / real (i * 2 + 1) * x ^ (i * 2 + 1)))"
    by simp_all
qed

lemma arctan_fifth:
  "1973955 / 10000000 \<le> arctan (1 / 5)" "arctan (1 / 5) \<le> (1973974 / 10000000 :: real)"
proof -
  have "(1973955 / 10000000 :: real)
          \<le> (\<Sum>i<2 * 2. (- 1) ^ i * (1 / real (i * 2 + 1) * (1 / 5) ^ (i * 2 + 1)))"
    by (simp add: lessThan_nat_numeral lessThan_Suc power_divide)
  also have "\<dots> \<le> arctan (1 / 5)"
    by (rule arctan_partial_sums) simp_all
  finally show "1973955 / 10000000 \<le> arctan (1 / 5)" .
  have "arctan (1 / 5) \<le> (\<Sum>i<2 * 1 + 1. (- 1) ^ i * (1 / real (i * 2 + 1) * (1 / 5) ^ (i * 2 + 1)))"
    by (rule arctan_partial_sums) simp_all
  also have "\<dots> \<le> (1973974 / 10000000 :: real)"
    by (simp add: lessThan_nat_numeral lessThan_Suc power_divide)
  finally show "arctan (1 / 5) \<le> (1973974 / 10000000 :: real)" .
qed

lemma arctan_239:
  "41840 / 10000000 \<le> arctan (1 / 239)" "arctan (1 / 239) \<le> (41842 / 10000000 :: real)"
proof -
  have "(41840 / 10000000 :: real)
          \<le> (\<Sum>i<2 * 1. (- 1) ^ i * (1 / real (i * 2 + 1) * (1 / 239) ^ (i * 2 + 1)))"
    by (simp add: lessThan_nat_numeral lessThan_Suc power_divide)
  also have "\<dots> \<le> arctan (1 / 239)"
    by (rule arctan_partial_sums) simp_all
  finally show "41840 / 10000000 \<le> arctan (1 / 239)" .
  have "arctan (1 / 239)
          \<le> (\<Sum>i<2 * 0 + 1. (- 1) ^ i * (1 / real (i * 2 + 1) * (1 / 239) ^ (i * 2 + 1)))"
    by (rule arctan_partial_sums) simp_all
  also have "\<dots> \<le> (41842 / 10000000 :: real)"
    by simp
  finally show "arctan (1 / 239) \<le> (41842 / 10000000 :: real)" .
qed

lemma pi_bounds: "3.14159 < pi" "pi < 3.14163"
proof -
  have "pi = 16 * arctan (1 / 5) - 4 * arctan (1 / 239)"
    using machin by simp
  with arctan_fifth arctan_239 show "3.14159 < pi" "pi < 3.14163"
    by simp_all
qed

lemma sqrt_two_pi_bounds: "2.5066 < sqrt (2 * pi)" "sqrt (2 * pi) < 2.5067"
proof -
  have "(2.5066 :: real)\<^sup>2 < 2 * pi"
    using pi_bounds(1) by (simp add: power2_eq_square)
  then show "2.5066 < sqrt (2 * pi)"
    by (rule real_less_rsqrt)
  have "2 * pi < (2.5067 :: real)\<^sup>2"
    using pi_bounds(2) by (simp add: power2_eq_square)
  then show "sqrt (2 * pi) < 2.5067"
    by (intro real_less_lsqrt) simp_all
qed

lemma flux_10_2: "\<bar>sqrt (2 * pi) * 10 * 2 - 50.133\<bar> < (1 / 1000 :: real)"
proof -
  have "50.132 < sqrt (2 * pi) * 10 * 2" "sqrt (2 * pi) * 10 * 2 < 50.134"
    using sqrt_two_pi_bounds by simp_all
  then have "- (1 / 1000) < sqrt (2 * pi) * 10 * 2 - 50.133"
        and "sqrt (2 * pi) * 10 * 2 - 50.133 < 1 / 1000"
    by simp_all
  then show ?thesis
    unfolding abs_less_iff by simp
qed

text \<open>
  C4. For every line \<open>k\<close> and every spaxel, the first slot of the line in the
  parameter cube written out is the product of \<open>sqrt (2 pi)\<close>, the amplitude (the
  second slot) and the observed width computed from the assembled cube; with a
  numeric amplitude \<open>a\<close> and width \<open>s\<close> it is the number \<open>sqrt (2 pi) a s\<close>, which
  for \<open>a = 10\<close> and \<open>s = 2\<close> is within a thousandth of 50.133. The other five
  slots of the line are those of the assembled cube.
\<close>

theorem C4_line_flux_slot:
  assumes "assemble_elines inp p es wd = Inr st"
      and "k < nlines p" "y < NAXIS2 (header1 inp)" "x < NAXIS1 (header1 inp)"
  shows "\<exists>out. run_make_elines_cube inp p es os c wd = Inr out \<and>
           elines_params_cube out (6 * k) y x
             = line_flux (elines_params_cube st (6 * k + 1) y x)
                 (fst (sigma_obs_of os c (elines_params_cube st) (elines_params_err st) k) y x) \<and>
           (\<forall>a s. elines_params_cube st (6 * k + 1) y x = Fin a \<and>
                  fst (sigma_obs_of os c (elines_params_cube st) (elines_params_err st) k) y x = Fin s
                  \<longrightarrow> elines_params_cube out (6 * k) y x = Fin (sqrt (2 * pi) * a * s)) \<and>
           (\<forall>j \<in> {1..5}. elines_params_cube out (6 * k + j) y x
                            = elines_params_cube st (6 * k + j) y x) \<and>
           (\<forall>v. line_flux (Fin 10) (Fin 2) = Fin v \<longrightarrow> \<bar>v - 50.133\<bar> < 1 / 1000)"
proof -
  let ?out = "foldl (derive_line (header1 inp) os c) st [0..<nlines p]"
  have "elines_params_cube ?out (6 * k) y x
             = line_flux (elines_params_cube st (6 * k + 1) y x)
                 (fst (sigma_obs_of os c (elines_params_cube st) (elines_params_err st) k) y x)"
    using assms by (simp add: derive_lines)
  moreover have "\<forall>j \<in> {1..5}. elines_params_cube ?out (6 * k + j) y x
                            = elines_params_cube st (6 * k + j) y x"
    by (auto simp: derive_lines)
  moreover have "\<forall>v. line_flux (Fin 10) (Fin 2) = Fin v \<longrightarrow> \<bar>v - 50.133\<bar> < 1 / 1000"
    using flux_10_2 by simp
  ultimately show ?thesis
    using run_make_elines_cube_eq [OF assms(1), of os c] by auto
qed

lemma ex_lines_values:
  assumes "assemble_elines ex_lines_inputs ex_config ex_els_spec ex_lines_world = Inr st"
  shows "elines_params_cube st 1 0 0 = Fin 10" "elines_params_err st 1 0 0 = Fin 9"
  unfolding assembled_values [OF assms]
  by (simp_all add: params_cube_of_def params_err_of_def ex_lines_inputs_def ex_config_def
        ex_lines_world_def stored_params_def stored_errs_def converged_def ex_fit_good_def)

lemma ex_lines_sigma:
  "sigma_obs_of ex_obs_sigma c pc pe k = (\<lambda>y x. Fin 2, \<lambda>y x. Fin 0)"
  by (simp add: sigma_obs_of_def ex_obs_sigma_def)

theorem C4_line_flux_slot_witness:
  "\<exists>st out. assemble_elines ex_lines_inputs ex_config ex_els_spec ex_lines_world = Inr st \<and>
      (0::nat) < nlines ex_config \<and> (0::nat) < NAXIS2 (header1 ex_lines_inputs) \<and>
      (0::nat) < NAXIS1 (header1 ex_lines_inputs) \<and>
      run_make_elines_cube ex_lines_inputs ex_config ex_els_spec ex_obs_sigma ex_c
        ex_lines_world = Inr out \<and>
      elines_params_cube st 1 0 0 = Fin 10 \<and>
      fst (sigma_obs_of ex_obs_sigma ex_c (elines_params_cube st) (elines_params_err st) 0) 0 0
        = Fin 2 \<and>
      elines_params_cube out 0 0 0 = Fin (sqrt (2 * pi) * 10 * 2) \<and>
      elines_params_cube out 1 0 0 = Fin 10 \<and>
      line_flux (Fin 10) (Fin 2) = Fin (sqrt (2 * pi) * 10 * 2) \<and>
      \<bar>sqrt (2 * pi) * 10 * 2 - 50.133\<bar> < 1 / 1000"
proof -
  from ex_lines_assembled obtain st where
    st: "assemble_elines ex_lines_inputs ex_config ex_els_spec ex_lines_world = Inr st" ..
  have h: "(0::nat) < nlines ex_config" "(0::nat) < NAXIS2 (header1 ex_lines_inputs)"
          "(0::nat) < NAXIS1 (header1 ex_lines_inputs)"
    by (simp_all add: ex_lines_inputs_def ex_config_def)
  have a: "elines_params_cube st 1 0 0 = Fin 10"
    by (rule ex_lines_values [OF st])
  have s: "fst (sigma_obs_of ex_obs_sigma ex_c (elines_params_cube st) (elines_params_err st) 0)
             0 0 = Fin 2"
    by (simp add: ex_lines_sigma)
  from C4_line_flux_slot [OF st h, of ex_obs_sigma ex_c] obtain out where
    out: "run_make_elines_cube ex_lines_inputs ex_config ex_els_spec ex_obs_sigma ex_c
            ex_lines_world = Inr out" and
    f: "\<forall>a s. elines_params_cube st (6 * 0 + 1) 0 0 = Fin a \<and>
              fst (sigma_obs_of ex_obs_sigma ex_c (elines_params_cube st)
                     (elines_params_err st) 0) 0 0 = Fin s
              \<longrightarrow> elines_params_cube out (6 * 0) 0 0 = Fin (sqrt (2 * pi) * a * s)" and
    r: "\<forall>j \<in> {1..5}. elines_params_cube out (6 * 0 + j) 0 0 = elines_params_cube st (6 * 0 + j) 0 0" and
    n: "\<forall>v. line_flux (Fin 10) (Fin 2) = Fin v \<longrightarrow> \<bar>v - 50.133\<bar> < 1 / 1000"
    by blast
  have l: "line_flux (Fin 10) (Fin 2) = Fin (sqrt (2 * pi) * 10 * 2)"
    by simp
  with n have v: "\<bar>sqrt (2 * pi) * 10 * 2 - 50.133\<bar> < 1 / 1000"
    by blast
  from f a s have "elines_params_cube out 0 0 0 = Fin (sqrt (2 * pi) * 10 * 2)"
    by simp
  moreover from r a have "elines_params_cube out 1 0 0 = Fin 10"
    by simp
  ultimately show ?thesis
    using st h out a s l v by blast
qed

text \<open>
  C5, at one spaxel with a converged fit of amplitude 10 and amplitude error 3, an
  observed width of 2 and no variance of the width: the error cube holds the
  amplitude's variance 9 (line 560), and the derived entry of the flux is
  \<open>2 pi (9 * 9 * 2)\<close>, the variance squared once more (line 593), where the
  specification gives \<open>2 pi (9 * 2)\<close>.
\<close>

theorem C5_flux_variance_squares_the_variance:
  "\<exists>out. run_make_elines_cube ex_lines_inputs ex_config ex_els_spec ex_obs_sigma ex_c
            ex_lines_world = Inr out \<and>
      elines_params_cube out 1 0 0 = Fin 10 \<and>
      elines_params_err out 1 0 0 = Fin 9 \<and>
      elines_params_err out 0 0 0 = Fin (2 * pi * (9 * 9 * 2 + 0 * (10 * 10))) \<and>
      spec_flux_variance 9 2 0 10 = 2 * pi * (9 * 2) \<and>
      elines_params_err out 0 0 0 \<noteq> Fin (spec_flux_variance 9 2 0 10)"
proof -
  from ex_lines_assembled obtain st where
    st: "assemble_elines ex_lines_inputs ex_config ex_els_spec ex_lines_world = Inr st" ..
  let ?out = "foldl (derive_line (header1 ex_lines_inputs) ex_obs_sigma ex_c) st
                [0..<nlines ex_config]"
  note v = ex_lines_values [OF st]
  have h: "(0::nat) < nlines ex_config" "(0::nat) < NAXIS2 (header1 ex_lines_inputs)"
          "(0::nat) < NAXIS1 (header1 ex_lines_inputs)"
    by (simp_all add: ex_lines_inputs_def ex_config_def)
  have a: "elines_params_cube ?out 1 0 0 = Fin 10" "elines_params_err ?out 1 0 0 = Fin 9"
    using v by (simp_all add: derive_lines)
  have e: "elines_params_err ?out 0 0 0 = Fin (2 * pi * (9 * 9 * 2 + 0 * (10 * 10)))"
    using v h by (simp add: derive_lines ex_lines_sigma line_flux_err_def)
  have s: "spec_flux_variance 9 2 0 10 = 2 * pi * (9 * 2)"
    by (simp add: spec_flux_variance_def)
  have "elines_params_err ?out 0 0 0 \<noteq> Fin (spec_flux_variance 9 2 0 10)"
    unfolding e s by simp
  with a e s run_make_elines_cube_eq [OF st, of ex_obs_sigma ex_c]
  show ?thesis by blast
qed

section \<open>The aperture map\<close>

lemma find_upt_Some:
  "List.find P [0..<n] = Some i \<longleftrightarrow> i < n \<and> P i \<and> (\<forall>j < i. \<not> P j)"
  by (auto simp: find_Some_iff)

lemma find_upt_None: "List.find P [0..<n] = None \<longleftrightarrow> (\<forall>j < n. \<not> P j)"
  by (auto simp: find_None_iff)

lemma find_snoc:
  "List.find P (xs @ [a]) =
     (case List.find P xs of None \<Rightarrow> if P a then Some a else None | Some i \<Rightarrow> Some i)"
  by (induction xs) auto

lemma find_upt_Suc:
  "List.find P [0..<Suc n] =
     (case List.find P [0..<n] of None \<Rightarrow> if P n then Some n else None | Some i \<Rightarrow> Some i)"
  by (simp add: find_snoc)

lemma set_grid [simp]: "set (grid ny nx) = {(y, x). y < ny \<and> x < nx}"
  by (auto simp: grid_def)

lemma ap_state_0 [simp]: "ap_state inp aps si 0 = nan_ap_cubes"
  by (simp add: ap_state_def)

lemma ap_state_Suc:
  "m < length si \<Longrightarrow>
   ap_state inp aps si (Suc m) = ap_step inp aps (ap_state inp aps si m) (m, si ! m)"
  by (simp add: ap_state_def take_Suc_conv_app_nth nth_enumerate_eq)

lemma ap_map_step:
  "ap_map (ap_step inp aps st (i, ind)) =
     (\<lambda>y x. if y < NAXIS2 (header1 inp) \<and> x < NAXIS1 (header1 inp) \<and> in_ap (aps ! ind) y x
                 \<and> isnan (ap_map st y x)
             then Fin (of_nat i) else ap_map st y x)"
  by (simp add: ap_step_def Let_def)

lemma isnan_iff [simp]: "isnan v \<longleftrightarrow> v = NaN"
  by (cases v) simp_all

lemma ap_map_state:
  assumes "m \<le> length si"
  shows "ap_map (ap_state inp aps si m) =
           (\<lambda>y x. if y < NAXIS2 (header1 inp) \<and> x < NAXIS1 (header1 inp)
                   then (case first_cover aps si m y x of None \<Rightarrow> NaN | Some i \<Rightarrow> Fin (of_nat i))
                   else NaN)"
  using assms
proof (induction m)
  case 0
  then show ?case
    by (auto simp: nan_ap_cubes_def nan_image_def first_cover_def fun_eq_iff)
next
  case (Suc m)
  then have m: "m < length si" and ih: "ap_map (ap_state inp aps si m) =
           (\<lambda>y x. if y < NAXIS2 (header1 inp) \<and> x < NAXIS1 (header1 inp)
                   then (case first_cover aps si m y x of None \<Rightarrow> NaN | Some i \<Rightarrow> Fin (of_nat i))
                   else NaN)"
    by simp_all
  show ?case
    unfolding ap_state_Suc [OF m] ap_map_step ih
    by (auto simp: fun_eq_iff first_cover_def find_snoc covers_rank_def split: option.splits)
qed

lemma first_cover_prefix:
  assumes "i < m"
  shows "first_cover aps si m y x = Some i \<longleftrightarrow> first_cover aps si (Suc i) y x = Some i"
  using assms by (auto simp: first_cover_def find_upt_Some simp del: upt_Suc)

lemma members_at_state:
  assumes "m \<le> length si" "i < m"
  shows "members_at (header1 inp) (ap_map (ap_state inp aps si m)) i
           = members_of aps si (header1 inp) i"
  unfolding members_at_def members_of_def
proof (rule filter_cong [OF refl])
  fix p assume "p \<in> set (grid (NAXIS2 (header1 inp)) (NAXIS1 (header1 inp)))"
  then obtain y x where p: "p = (y, x)" "y < NAXIS2 (header1 inp)" "x < NAXIS1 (header1 inp)"
    by auto
  have "(ap_map (ap_state inp aps si m) y x = Fin (of_nat i))
          = (first_cover aps si m y x = Some i)"
    using p by (simp add: ap_map_state [OF assms(1)] split: option.splits)
  also have "\<dots> = (first_cover aps si (Suc i) y x = Some i)"
    by (rule first_cover_prefix [OF assms(2)])
  finally show "(case p of (y, x) \<Rightarrow> ap_map (ap_state inp aps si m) y x = Fin (of_nat i))
                 = (case p of (y, x) \<Rightarrow> first_cover aps si (Suc i) y x = Some i)"
    by (simp add: p)
qed

lemma set_members_of:
  "(y, x) \<in> set (members_of aps si h i) \<longleftrightarrow>
     y < NAXIS2 h \<and> x < NAXIS1 h \<and> first_cover aps si (Suc i) y x = Some i"
  by (auto simp: members_of_def)

lemma foldl_set_spaxel:
  "foldl (set_spaxel nw spec) c ps w y x =
     (if (y, x) \<in> set ps \<and> w < nw then spec ! w else c w y x)"
  by (induction ps arbitrary: c) (auto simp: set_spaxel_def)

lemma integrated_nth:
  "w < nw \<Longrightarrow> map (\<lambda>w. nansum (map (\<lambda>(y, x). d w y x) ps)) [0..<nw] ! w = integrated d ps w"
  by (simp add: integrated_def)

lemma ap_cubes_step:
  defines "mem inp aps st i ind \<equiv> members_at (header1 inp) (ap_map (ap_step inp aps st (i, ind))) i"
  shows "ap_spec_cube (ap_step inp aps st (i, ind)) w y x =
           (if (y, x) \<in> set (mem inp aps st i ind) \<and> w < NAXIS3 (header1 inp)
            then integrated (data inp) (mem inp aps st i ind) w else ap_spec_cube st w y x)"
    and "ap_spec_err (ap_step inp aps st (i, ind)) w y x =
           (if (y, x) \<in> set (mem inp aps st i ind) \<and> w < NAXIS3 (header1 inp)
            then integrated (err inp) (mem inp aps st i ind) w else ap_spec_err st w y x)"
proof -
  let ?M = "mem inp aps st i ind"
  have c: "ap_spec_cube (ap_step inp aps st (i, ind)) =
             foldl (set_spaxel (NAXIS3 (header1 inp))
                      (map (\<lambda>w. nansum (map (\<lambda>(y, x). data inp w y x) ?M))
                         [0..<NAXIS3 (header1 inp)]))
               (ap_spec_cube st) ?M"
    and e: "ap_spec_err (ap_step inp aps st (i, ind)) =
             foldl (set_spaxel (NAXIS3 (header1 inp))
                      (map (\<lambda>w. nansum (map (\<lambda>(y, x). err inp w y x) ?M))
                         [0..<NAXIS3 (header1 inp)]))
               (ap_spec_err st) ?M"
    unfolding mem_def members_at_def ap_step_def Let_def by simp_all
  show "ap_spec_cube (ap_step inp aps st (i, ind)) w y x =
           (if (y, x) \<in> set ?M \<and> w < NAXIS3 (header1 inp)
            then integrated (data inp) ?M w else ap_spec_cube st w y x)"
    unfolding c foldl_set_spaxel by (simp add: integrated_def)
  show "ap_spec_err (ap_step inp aps st (i, ind)) w y x =
           (if (y, x) \<in> set ?M \<and> w < NAXIS3 (header1 inp)
            then integrated (err inp) ?M w else ap_spec_err st w y x)"
    unfolding e foldl_set_spaxel by (simp add: integrated_def)
qed

lemma ap_cubes_state:
  assumes "m \<le> length si"
  shows "ap_spec_cube (ap_state inp aps si m) =
           (\<lambda>w y x. if y < NAXIS2 (header1 inp) \<and> x < NAXIS1 (header1 inp) \<and> w < NAXIS3 (header1 inp)
                     then (case first_cover aps si m y x of
                             None \<Rightarrow> NaN
                           | Some i \<Rightarrow> integrated (data inp) (members_of aps si (header1 inp) i) w)
                     else NaN) \<and>
         ap_spec_err (ap_state inp aps si m) =
           (\<lambda>w y x. if y < NAXIS2 (header1 inp) \<and> x < NAXIS1 (header1 inp) \<and> w < NAXIS3 (header1 inp)
                     then (case first_cover aps si m y x of
                             None \<Rightarrow> NaN
                           | Some i \<Rightarrow> integrated (err inp) (members_of aps si (header1 inp) i) w)
                     else NaN)"
  using assms
proof (induction m)
  case 0
  then show ?case
    by (auto simp: nan_ap_cubes_def nan_cube_def first_cover_def fun_eq_iff)
next
  case (Suc m)
  then have m: "m < length si" and m': "Suc m \<le> length si" by simp_all
  note ih = Suc.IH [OF less_imp_le [OF m]]
  have mem: "members_at (header1 inp)
               (ap_map (ap_step inp aps (ap_state inp aps si m) (m, si ! m))) m
             = members_of aps si (header1 inp) m"
    using members_at_state [OF m' lessI, of inp aps] by (simp add: ap_state_Suc [OF m])
  have fc: "first_cover aps si (Suc m) y x =
              (case first_cover aps si m y x of
                 None \<Rightarrow> if covers_rank aps si y x m then Some m else None
               | Some i \<Rightarrow> Some i)" for y x
    by (simp add: first_cover_def find_snoc)
  have ne: "first_cover aps si m y x \<noteq> Some m" for y x
    by (simp add: first_cover_def find_upt_Some)
  show ?case
    unfolding ap_state_Suc [OF m]
    by (auto simp: fun_eq_iff ap_cubes_step mem set_members_of ih fc ne split: option.splits)
qed

section \<open>The processing order\<close>

lemma length_flux_at:
  "flux_at ny nx flux aps = Inr fs \<Longrightarrow> length fs = length aps"
proof (induction aps arbitrary: fs)
  case Nil
  then show ?case by simp
next
  case (Cons a aps)
  obtain x y r where a: "a = (x, y, r)" by (cases a)
  from Cons.prems obtain fs' where "flux_at ny nx flux aps = Inr fs'" "length fs = Suc (length fs')"
    unfolding a by (auto split: option.splits sum.splits)
  with Cons.IH show ?case by simp
qed

lemma sort_upt:
  fixes xs :: "nat list"
  assumes "set xs = {0..<n}" "distinct xs"
  shows "sort xs = [0..<n]"
  using assms by (intro sorted_distinct_set_unique) simp_all

lemma is_argsort_length: "is_argsort fs si \<Longrightarrow> length si = length fs"
  using length_sort [of "\<lambda>x. x" si] by (simp add: is_argsort_def)

lemma is_argsort_set: "is_argsort fs si \<Longrightarrow> set si = {0..<length fs}"
  using set_sort [of "\<lambda>x. x" si] by (simp add: is_argsort_def)

lemma is_argsort_distinct: "is_argsort fs si \<Longrightarrow> distinct si"
  using distinct_sort [of "\<lambda>x. x" si] by (simp add: is_argsort_def)

lemma is_argsort_sorted: "is_argsort fs si \<Longrightarrow> sorted (map (\<lambda>i. np_key (fs ! i)) si)"
  by (simp add: is_argsort_def)

lemma is_argsort_ex_argsort: "is_argsort fs (ex_argsort fs)"
  unfolding is_argsort_def ex_argsort_def by (simp add: sort_upt)

text \<open>
  When the values differ from each other (at most one of them invalid), there is one
  order only.
\<close>

lemma is_argsort_unique:
  assumes d: "distinct (map np_key fs)" and a: "is_argsort fs si" and b: "is_argsort fs si'"
  shows "si = si'"
proof -
  let ?f = "\<lambda>i. np_key (fs ! i)"
  have inj: "inj_on ?f {0..<length fs}"
  proof (rule inj_onI)
    fix x y
    assume "x \<in> {0..<length fs}" "y \<in> {0..<length fs}" "np_key (fs ! x) = np_key (fs ! y)"
    then show "x = y"
      using nth_eq_iff_index_eq [OF d, of x y] by simp
  qed
  have "map ?f si = map ?f si'"
  proof (rule sorted_distinct_set_unique)
    show "sorted (map ?f si)" "sorted (map ?f si')"
      using a b by (simp_all add: is_argsort_sorted)
    show "distinct (map ?f si)" "distinct (map ?f si')"
      using a b inj by (simp_all add: distinct_map is_argsort_distinct is_argsort_set)
    show "set (map ?f si) = set (map ?f si')"
      using a b by (simp add: is_argsort_set)
  qed
  moreover have "inj_on ?f (set si \<union> set si')"
    using a b inj by (simp add: is_argsort_set)
  ultimately show ?thesis
    by (simp add: inj_on_map_eq_map)
qed

text \<open>Of two equal values, either order meets the assumption.\<close>

lemma is_argsort_equal_values:
  "is_argsort [Fin 20, Fin 20] [0, 1]" "is_argsort [Fin 20, Fin 20] [1, 0]"
  by (simp_all add: is_argsort_def upt_rec)

lemma length_sort_index:
  "is_argsort fs (argsort fs) \<Longrightarrow> length (sort_index argsort fs) = length fs"
  by (simp add: sort_index_def is_argsort_length)

lemma set_sort_index:
  "is_argsort fs (argsort fs) \<Longrightarrow> set (sort_index argsort fs) = {0..<length fs}"
  by (simp add: sort_index_def is_argsort_set)

lemma distinct_sort_index:
  "is_argsort fs (argsort fs) \<Longrightarrow> distinct (sort_index argsort fs)"
  by (simp add: sort_index_def is_argsort_distinct)

lemma sort_sort_index:
  "is_argsort fs (argsort fs) \<Longrightarrow> sort (sort_index argsort fs) = [0..<length fs]"
  by (rule sort_upt) (simp_all add: set_sort_index distinct_sort_index)

lemma nth_sort_index_less:
  "is_argsort fs (argsort fs) \<Longrightarrow> i < length fs \<Longrightarrow> sort_index argsort fs ! i < length fs"
  using nth_mem [of i "sort_index argsort fs"] by (simp add: set_sort_index length_sort_index)

lemma sort_index_mono:
  assumes "is_argsort fs (argsort fs)" "a \<le> b" "b < length fs"
  shows "np_key (fs ! (sort_index argsort fs ! b)) \<le> np_key (fs ! (sort_index argsort fs ! a))"
proof -
  have len: "length (sort_index argsort fs) = length fs"
    using length_sort_index [where argsort = argsort and fs = fs, OF assms(1)] .
  have "sorted (map (\<lambda>i. np_key (fs ! i)) (argsort fs))"
    using is_argsort_sorted [where si = "argsort fs" and fs = fs, OF assms(1)] .
  then have "sorted (rev (map (\<lambda>i. np_key (fs ! i)) (sort_index argsort fs)))"
    by (simp add: sort_index_def rev_map)
  then have "map (\<lambda>i. np_key (fs ! i)) (sort_index argsort fs) ! b
               \<le> map (\<lambda>i. np_key (fs ! i)) (sort_index argsort fs) ! a"
    using assms(2,3) len by (simp add: sorted_rev_iff_nth_mono)
  with assms(2,3) len show ?thesis by simp
qed

lemma sort_index_unique:
  assumes "distinct (map np_key fs)" "is_argsort fs (argsort fs)" "is_argsort fs si"
  shows "sort_index argsort fs = rev si"
  using is_argsort_unique [where si = "argsort fs" and si' = si and fs = fs, OF assms]
  by (simp add: sort_index_def)

section \<open>Properties of the aperture cube\<close>

lemma run_make_ap_cube_state:
  assumes "run_make_ap_cube argsort inp aps flux = Inr out"
      and "flux_at (NAXIS2 (header1 inp)) (NAXIS1 (header1 inp)) flux aps = Inr fs"
      and "is_argsort fs (argsort fs)"
  shows "out = ap_state inp aps (sort_index argsort fs) (length aps)" "length fs = length aps"
    and "length (sort_index argsort fs) = length aps"
proof -
  show len: "length fs = length aps"
    using assms(2) by (rule length_flux_at)
  show l: "length (sort_index argsort fs) = length aps"
    using length_sort_index [where argsort = argsort and fs = fs, OF assms(3)] len by simp
  from assms(1,2) show "out = ap_state inp aps (sort_index argsort fs) (length aps)"
    by (auto simp: run_make_ap_cube_def ap_state_def l [symmetric] split: if_splits)
qed

lemma first_cover_None:
  assumes "length fs = length aps" "is_argsort fs (argsort fs)"
  shows "first_cover aps (sort_index argsort fs) (length aps) y x = None
           \<longleftrightarrow> (\<forall>j < length aps. \<not> in_ap (aps ! j) y x)"
proof -
  have "(\<forall>j \<in> set (sort_index argsort fs). \<not> in_ap (aps ! j) y x)
          \<longleftrightarrow> (\<forall>i. i < length (sort_index argsort fs) \<longrightarrow> \<not> in_ap (aps ! (sort_index argsort fs ! i)) y x)"
    by (rule all_set_conv_all_nth)
  then have "(\<forall>i < length aps. \<not> in_ap (aps ! (sort_index argsort fs ! i)) y x)
          \<longleftrightarrow> (\<forall>j < length aps. \<not> in_ap (aps ! j) y x)"
    using assms by (auto simp: Ball_def set_sort_index length_sort_index)
  then show ?thesis
    by (simp add: first_cover_def find_upt_None covers_rank_def)
qed

lemma first_cover_Some:
  "first_cover aps si m y x = Some i \<longleftrightarrow>
     i < m \<and> in_ap (aps ! (si ! i)) y x \<and> (\<forall>i' < i. \<not> in_ap (aps ! (si ! i')) y x)"
  by (simp add: first_cover_def find_upt_Some covers_rank_def)

lemma first_cover_highest:
  assumes len: "length fs = length aps"
      and srt: "is_argsort fs (argsort fs)"
      and fc: "first_cover aps (sort_index argsort fs) (length aps) y x = Some i"
      and j: "j < length aps" "in_ap (aps ! j) y x"
  shows "np_key (fs ! j) \<le> np_key (fs ! (sort_index argsort fs ! i))"
proof -
  from j len have "j \<in> set (sort_index argsort fs)"
    by (simp add: set_sort_index srt)
  then obtain i' where i': "i' < length fs" "sort_index argsort fs ! i' = j"
    by (auto simp: in_set_conv_nth length_sort_index srt)
  have "i \<le> i'"
    using fc j i' by (auto simp: first_cover_Some not_less [symmetric])
  from sort_index_mono [where argsort = argsort and fs = fs, OF srt this i'(1)] i'
  show ?thesis by simp
qed

lemma np_key_le_Fin: "np_key (Fin a) \<le> np_key (Fin b) \<longleftrightarrow> a \<le> b"
  by (simp add: less_eq_prod_def)

lemma ap_map_state_stays:
  assumes "m \<le> m'" "m' \<le> length si" "ap_map (ap_state inp aps si m) y x \<noteq> NaN"
  shows "ap_map (ap_state inp aps si m') y x = ap_map (ap_state inp aps si m) y x"
proof -
  from assms have m: "m \<le> length si" by simp
  from assms(3) obtain i where
    b: "y < NAXIS2 (header1 inp)" "x < NAXIS1 (header1 inp)" and
    i: "first_cover aps si m y x = Some i"
    unfolding ap_map_state [OF m] by (auto split: if_splits option.splits)
  from i assms(1) have "first_cover aps si m' y x = Some i"
    by (auto simp: first_cover_Some)
  with i b show ?thesis
    by (simp add: ap_map_state [OF m] ap_map_state [OF assms(2)])
qed

text \<open>
  C1, as the code has it. The apertures are processed in the order
  \<^verbatim>\<open>np.argsort(fs)[::-1]\<close>, each aperture once, by decreasing peak value (an invalid
  peak value first); the order of apertures of equal peak value is that of the
  sorting routine, of which nothing is said, and when the peak values differ from
  each other the order is the same for every routine. A spaxel covered by no
  aperture stays unassigned. A spaxel covered by at least one aperture is given the
  rank, in the processing order, of the first aperture of that order covering it; no
  aperture covering it has a higher peak value. A spaxel once assigned keeps its
  number through the rest of the loop.
\<close>

theorem C1_first_covering_rank:
  assumes "run_make_ap_cube argsort inp aps flux = Inr out"
      and "flux_at (NAXIS2 (header1 inp)) (NAXIS1 (header1 inp)) flux aps = Inr fs"
      and "is_argsort fs (argsort fs)"
      and "y < NAXIS2 (header1 inp)" "x < NAXIS1 (header1 inp)"
  shows "((\<forall>j < length aps. \<not> in_ap (aps ! j) y x) \<longrightarrow> ap_map out y x = NaN) \<and>
         ((\<exists>j < length aps. in_ap (aps ! j) y x) \<longrightarrow>
            (\<exists>i < length aps.
                ap_map out y x = Fin (of_nat i) \<and>
                sort_index argsort fs ! i < length aps \<and>
                in_ap (aps ! (sort_index argsort fs ! i)) y x \<and>
                (\<forall>i' < i. \<not> in_ap (aps ! (sort_index argsort fs ! i')) y x) \<and>
                (\<forall>j < length aps. in_ap (aps ! j) y x \<longrightarrow>
                     np_key (fs ! j) \<le> np_key (fs ! (sort_index argsort fs ! i)) \<and>
                     \<not> flt (fs ! (sort_index argsort fs ! i)) (fs ! j)))) \<and>
         (\<forall>a b. a \<le> b \<and> b < length aps \<longrightarrow>
              np_key (fs ! (sort_index argsort fs ! b)) \<le> np_key (fs ! (sort_index argsort fs ! a))) \<and>
         sort (sort_index argsort fs) = [0..<length aps] \<and>
         (\<forall>si. distinct (map np_key fs) \<and> is_argsort fs si \<longrightarrow> sort_index argsort fs = rev si) \<and>
         out = ap_state inp aps (sort_index argsort fs) (length aps) \<and>
         (\<forall>m m'. m \<le> m' \<and> m' \<le> length aps \<and>
                  ap_map (ap_state inp aps (sort_index argsort fs) m) y x \<noteq> NaN \<longrightarrow>
              ap_map (ap_state inp aps (sort_index argsort fs) m') y x
                = ap_map (ap_state inp aps (sort_index argsort fs) m) y x)"
proof -
  note srt = assms(3)
  note st = run_make_ap_cube_state [where argsort = argsort, OF assms(1,2) srt]
  have len: "length (sort_index argsort fs) = length aps" "length aps \<le> length (sort_index argsort fs)"
    using st(3) by simp_all
  note am = ap_map_state [OF len(2), of inp aps]
  have none: "ap_map out y x = NaN" if "\<forall>j < length aps. \<not> in_ap (aps ! j) y x"
    using that first_cover_None [where argsort = argsort and fs = fs, OF st(2) srt, of y x] assms(4,5) by (simp add: st(1) am)
  have some: "\<exists>i < length aps.
                ap_map out y x = Fin (of_nat i) \<and>
                sort_index argsort fs ! i < length aps \<and>
                in_ap (aps ! (sort_index argsort fs ! i)) y x \<and>
                (\<forall>i' < i. \<not> in_ap (aps ! (sort_index argsort fs ! i')) y x) \<and>
                (\<forall>j < length aps. in_ap (aps ! j) y x \<longrightarrow>
                     np_key (fs ! j) \<le> np_key (fs ! (sort_index argsort fs ! i)) \<and>
                     \<not> flt (fs ! (sort_index argsort fs ! i)) (fs ! j))"
    if "\<exists>j < length aps. in_ap (aps ! j) y x"
  proof -
    from that first_cover_None [where argsort = argsort and fs = fs, OF st(2) srt, of y x] obtain i where
      i: "first_cover aps (sort_index argsort fs) (length aps) y x = Some i"
      by (cases "first_cover aps (sort_index argsort fs) (length aps) y x") auto
    then have i': "i < length aps" "in_ap (aps ! (sort_index argsort fs ! i)) y x"
                  "\<forall>i' < i. \<not> in_ap (aps ! (sort_index argsort fs ! i')) y x"
      by (simp_all add: first_cover_Some)
    have v: "ap_map out y x = Fin (of_nat i)"
      using i assms(4,5) by (simp add: st(1) am)
    have b: "sort_index argsort fs ! i < length aps"
      using nth_sort_index_less [where argsort = argsort and fs = fs, OF srt, of i] i'(1) st(2)
      by simp
    have h: "np_key (fs ! j) \<le> np_key (fs ! (sort_index argsort fs ! i)) \<and>
             \<not> flt (fs ! (sort_index argsort fs ! i)) (fs ! j)"
      if j: "j < length aps" "in_ap (aps ! j) y x" for j
    proof -
      have k: "np_key (fs ! j) \<le> np_key (fs ! (sort_index argsort fs ! i))"
        using first_cover_highest [where argsort = argsort and fs = fs, OF st(2) srt i j] .
      moreover have "\<not> flt (fs ! (sort_index argsort fs ! i)) (fs ! j)"
        using k by (cases "fs ! j"; cases "fs ! (sort_index argsort fs ! i)")
                   (simp_all add: less_eq_prod_def)
      ultimately show ?thesis ..
    qed
    from i' v b h show ?thesis by blast
  qed
  have mono: "\<forall>a b. a \<le> b \<and> b < length aps \<longrightarrow>
              np_key (fs ! (sort_index argsort fs ! b)) \<le> np_key (fs ! (sort_index argsort fs ! a))"
    using sort_index_mono [where argsort = argsort and fs = fs, OF srt] st(2) by simp
  have perm: "sort (sort_index argsort fs) = [0..<length aps]"
    using sort_sort_index [where argsort = argsort and fs = fs, OF srt] st(2) by simp
  have uniq: "\<forall>si. distinct (map np_key fs) \<and> is_argsort fs si \<longrightarrow> sort_index argsort fs = rev si"
    using sort_index_unique [where argsort = argsort and fs = fs, OF _ srt] by blast
  have stay: "\<forall>m m'. m \<le> m' \<and> m' \<le> length aps \<and>
                  ap_map (ap_state inp aps (sort_index argsort fs) m) y x \<noteq> NaN \<longrightarrow>
              ap_map (ap_state inp aps (sort_index argsort fs) m') y x
                = ap_map (ap_state inp aps (sort_index argsort fs) m) y x"
    using ap_map_state_stays [of _ _ "sort_index argsort fs" inp aps y x] len(1) by simp
  from none some mono perm uniq st(1) stay show ?thesis by blast
qed

text \<open>
  C8. In the cubes written out, a spaxel with the number \<open>i\<close> in the aperture map
  holds, at every sample, the sum over all the spaxels with that number of the
  signal (of the error, in the error cube) at that sample, an invalid value
  counting for zero: a plain sum in both cubes. The spaxels with the number \<open>i\<close>
  are those that had it at the end of the pass of the loop for rank \<open>i\<close>, when the
  sums were taken. A spaxel with no number is invalid in both cubes.
\<close>

theorem C8_integrated_spectrum:
  assumes "run_make_ap_cube argsort inp aps flux = Inr out"
      and "flux_at (NAXIS2 (header1 inp)) (NAXIS1 (header1 inp)) flux aps = Inr fs"
      and "is_argsort fs (argsort fs)"
      and "y < NAXIS2 (header1 inp)" "x < NAXIS1 (header1 inp)" "w < NAXIS3 (header1 inp)"
  shows "(\<forall>i. ap_map out y x = Fin (of_nat i) \<longrightarrow>
            ap_spec_cube out w y x
              = Fin (\<Sum>(y', x') \<leftarrow> members_at (header1 inp) (ap_map out) i.
                       nan_to_zero (data inp w y' x')) \<and>
            ap_spec_err out w y x
              = Fin (\<Sum>(y', x') \<leftarrow> members_at (header1 inp) (ap_map out) i.
                       nan_to_zero (err inp w y' x')) \<and>
            (y, x) \<in> set (members_at (header1 inp) (ap_map out) i) \<and>
            i < length aps \<and>
            members_at (header1 inp) (ap_map out) i
              = members_at (header1 inp)
                  (ap_map (ap_state inp aps (sort_index argsort fs) (Suc i))) i) \<and>
         (ap_map out y x = NaN \<longrightarrow> ap_spec_cube out w y x = NaN \<and> ap_spec_err out w y x = NaN)"
proof -
  note st = run_make_ap_cube_state [where argsort = argsort, OF assms(1,2,3)]
  have len: "length aps \<le> length (sort_index argsort fs)"
    using st(3) by simp
  note am = ap_map_state [OF len, of inp aps]
  note ac = ap_cubes_state [OF len, of inp aps]
  have sums: "integrated d ps w = Fin (\<Sum>(y', x') \<leftarrow> ps. nan_to_zero (d w y' x'))" for d ps
    by (simp add: integrated_def nansum_def case_prod_unfold comp_def)
  have a: "ap_spec_cube out w y x
              = Fin (\<Sum>(y', x') \<leftarrow> members_at (header1 inp) (ap_map out) i.
                       nan_to_zero (data inp w y' x')) \<and>
            ap_spec_err out w y x
              = Fin (\<Sum>(y', x') \<leftarrow> members_at (header1 inp) (ap_map out) i.
                       nan_to_zero (err inp w y' x')) \<and>
            (y, x) \<in> set (members_at (header1 inp) (ap_map out) i) \<and>
            i < length aps \<and>
            members_at (header1 inp) (ap_map out) i
              = members_at (header1 inp)
                  (ap_map (ap_state inp aps (sort_index argsort fs) (Suc i))) i"
    if v: "ap_map out y x = Fin (of_nat i)" for i
  proof -
    from v assms(4,5) have fc: "first_cover aps (sort_index argsort fs) (length aps) y x = Some i"
      by (auto simp: st(1) am split: option.splits)
    then have i: "i < length aps" by (simp add: first_cover_Some)
    then have i': "Suc i \<le> length (sort_index argsort fs)" using st(3) by simp
    have m: "members_at (header1 inp) (ap_map out) i = members_of aps (sort_index argsort fs) (header1 inp) i"
      unfolding st(1) by (rule members_at_state [OF len i])
    have m': "members_at (header1 inp) (ap_map (ap_state inp aps (sort_index argsort fs) (Suc i))) i
                = members_of aps (sort_index argsort fs) (header1 inp) i"
      by (rule members_at_state [OF i' lessI])
    have "(y, x) \<in> set (members_at (header1 inp) (ap_map out) i)"
      using v assms(4,5) by (simp add: members_at_def)
    moreover have "ap_spec_cube out w y x
                     = integrated (data inp) (members_at (header1 inp) (ap_map out) i) w"
      unfolding m using fc assms(4-6) by (simp add: st(1) ac)
    moreover have "ap_spec_err out w y x
                     = integrated (err inp) (members_at (header1 inp) (ap_map out) i) w"
      unfolding m using fc assms(4-6) by (simp add: st(1) ac)
    ultimately show ?thesis
      using i m m' by (simp add: sums)
  qed
  have b: "ap_spec_cube out w y x = NaN \<and> ap_spec_err out w y x = NaN"
    if v: "ap_map out y x = NaN"
  proof -
    from v assms(4,5) have "first_cover aps (sort_index argsort fs) (length aps) y x = None"
      by (auto simp: st(1) am split: option.splits)
    then show ?thesis
      using assms(4-6) by (simp add: st(1) ac)
  qed
  from a b show ?thesis by blast
qed

section \<open>The aperture cube on the examples\<close>

lemma ex_peaks:
  "flux_at (NAXIS2 (header1 ex_ap_inputs)) (NAXIS1 (header1 ex_ap_inputs)) ex_flux ex_aps
     = Inr [Fin 5, Fin 20, Fin 10]"
  by (simp add: ex_ap_inputs_def ex_flux_def ex_aps_def py_index_def)

lemma ex_two_peaks:
  "flux_at (NAXIS2 (header1 ex_ap_inputs)) (NAXIS1 (header1 ex_ap_inputs)) ex_two_flux ex_two_aps
     = Inr [Fin 10, Fin 20]"
  by (simp add: ex_ap_inputs_def ex_two_flux_def ex_two_aps_def py_index_def)

lemma ex_sort_index: "sort_index ex_argsort [Fin 5, Fin 20, Fin 10] = [1, 2, 0]"
  by (simp add: sort_index_def ex_argsort_def sort_key_def upt_rec less_eq_prod_def)

lemma ex_two_sort_index: "sort_index ex_argsort [Fin 10, Fin 20] = [1, 0]"
  by (simp add: sort_index_def ex_argsort_def sort_key_def upt_rec less_eq_prod_def)

text \<open>On the examples every sorting routine gives the order of the one used here.\<close>

lemma ex_order:
  assumes "is_argsort [Fin 5, Fin 20, Fin 10] (argsort [Fin 5, Fin 20, Fin 10])"
  shows "sort_index argsort [Fin 5, Fin 20, Fin 10] = [1, 2, 0]"
proof -
  have "sort_index argsort [Fin 5, Fin 20, Fin 10]
          = rev (ex_argsort [Fin 5, Fin 20, Fin 10])"
    by (rule sort_index_unique
          [where argsort = argsort and fs = "[Fin 5, Fin 20, Fin 10]", OF _ assms is_argsort_ex_argsort])
       simp
  then show ?thesis
    using ex_sort_index by (simp add: sort_index_def)
qed

lemma ex_two_order:
  assumes "is_argsort [Fin 10, Fin 20] (argsort [Fin 10, Fin 20])"
  shows "sort_index argsort [Fin 10, Fin 20] = [1, 0]"
proof -
  have "sort_index argsort [Fin 10, Fin 20] = rev (ex_argsort [Fin 10, Fin 20])"
    by (rule sort_index_unique
          [where argsort = argsort and fs = "[Fin 10, Fin 20]", OF _ assms is_argsort_ex_argsort])
       simp
  then show ?thesis
    using ex_two_sort_index by (simp add: sort_index_def)
qed

lemma ex_run_any:
  assumes "is_argsort [Fin 5, Fin 20, Fin 10] (argsort [Fin 5, Fin 20, Fin 10])"
  shows "run_make_ap_cube argsort ex_ap_inputs ex_aps ex_flux
           = Inr (ap_state ex_ap_inputs ex_aps [1, 2, 0] 3)"
  using ex_peaks
  by (simp add: run_make_ap_cube_def ex_order [where argsort = argsort, OF assms] ap_state_def) (simp add: ex_aps_def)

lemma ex_two_run_any:
  assumes "is_argsort [Fin 10, Fin 20] (argsort [Fin 10, Fin 20])"
  shows "run_make_ap_cube argsort ex_ap_inputs ex_two_aps ex_two_flux
           = Inr (ap_state ex_ap_inputs ex_two_aps [1, 0] 2)"
  using ex_two_peaks
  by (simp add: run_make_ap_cube_def ex_two_order [where argsort = argsort, OF assms] ap_state_def)
     (simp add: ex_two_aps_def)

lemma ex_run:
  "run_make_ap_cube ex_argsort ex_ap_inputs ex_aps ex_flux
     = Inr (ap_state ex_ap_inputs ex_aps [1, 2, 0] 3)"
  by (rule ex_run_any [where argsort = ex_argsort, OF is_argsort_ex_argsort])

lemma ex_two_run:
  "run_make_ap_cube ex_argsort ex_ap_inputs ex_two_aps ex_two_flux
     = Inr (ap_state ex_ap_inputs ex_two_aps [1, 0] 2)"
  by (rule ex_two_run_any [where argsort = ex_argsort, OF is_argsort_ex_argsort])

lemma ex_map:
  "ap_map (ap_state ex_ap_inputs ex_aps [1, 2, 0] 3) 0 0 = Fin 0"
  "ap_map (ap_state ex_ap_inputs ex_aps [1, 2, 0] 3) 0 1 = Fin 0"
  "ap_map (ap_state ex_ap_inputs ex_aps [1, 2, 0] 3) 0 2 = Fin 0"
  by (simp_all add: ap_map_state first_cover_def covers_rank_def ex_aps_def ex_ap_inputs_def
        upt_rec)

lemma ex_two_map:
  "ap_map (ap_state ex_ap_inputs ex_two_aps [1, 0] 2) 0 0 = Fin 1"
  "ap_map (ap_state ex_ap_inputs ex_two_aps [1, 0] 2) 0 1 = NaN"
  "ap_map (ap_state ex_ap_inputs ex_two_aps [1, 0] 2) 0 2 = Fin 0"
  by (simp_all add: ap_map_state first_cover_def covers_rank_def ex_two_aps_def ex_ap_inputs_def
        upt_rec)

lemma ex_members:
  "members_at (header1 ex_ap_inputs) (ap_map (ap_state ex_ap_inputs ex_aps [1, 2, 0] 3)) 0
     = [(0, 0), (0, 1), (0, 2)]"
proof -
  have "[0..<3] = [0, 1, 2::nat]"
    by (simp add: upt_rec numeral_3_eq_3 numeral_2_eq_2)
  then have g: "grid (NAXIS2 (header1 ex_ap_inputs)) (NAXIS1 (header1 ex_ap_inputs))
             = [(0, 0), (0, 1), (0, 2)]"
    by (simp add: grid_def ex_ap_inputs_def)
  show ?thesis
    unfolding members_at_def g using ex_map by simp
qed

text \<open>
  C1 as stated fails. With the peak values 5, 20, 10 of the specification, the
  spaxel inside the disks of the apertures 1 and 2, and outside that of the aperture
  0, is recorded with 0, where the specification has 1, the index of the aperture of
  peak value 20. With two apertures of peak values 10 and 20 that share no spaxel,
  the spaxel covered by the first aperture of the list alone is recorded with 1,
  where the index of that aperture is 0. The peak values differ from each other in
  both examples: the sorting routine has no part in the outcome.
\<close>

theorem C1_recorded_id_counterexample:
  "run_make_ap_cube ex_argsort ex_ap_inputs ex_aps ex_flux
     = Inr (ap_state ex_ap_inputs ex_aps [1, 2, 0] 3) \<and>
   flux_at (NAXIS2 (header1 ex_ap_inputs)) (NAXIS1 (header1 ex_ap_inputs)) ex_flux ex_aps
     = Inr [Fin 5, Fin 20, Fin 10] \<and>
   is_argsort [Fin 5, Fin 20, Fin 10] (ex_argsort [Fin 5, Fin 20, Fin 10]) \<and>
   in_ap (ex_aps ! 1) 0 2 \<and> in_ap (ex_aps ! 2) 0 2 \<and> \<not> in_ap (ex_aps ! 0) 0 2 \<and>
   ap_map (ap_state ex_ap_inputs ex_aps [1, 2, 0] 3) 0 2 = Fin 0 \<and>
   spec_ap_id ex_aps [Fin 5, Fin 20, Fin 10] 0 2 = Some 1 \<and>
   run_make_ap_cube ex_argsort ex_ap_inputs ex_two_aps ex_two_flux
     = Inr (ap_state ex_ap_inputs ex_two_aps [1, 0] 2) \<and>
   flux_at (NAXIS2 (header1 ex_ap_inputs)) (NAXIS1 (header1 ex_ap_inputs)) ex_two_flux ex_two_aps
     = Inr [Fin 10, Fin 20] \<and>
   is_argsort [Fin 10, Fin 20] (ex_argsort [Fin 10, Fin 20]) \<and>
   in_ap (ex_two_aps ! 0) 0 0 \<and> \<not> in_ap (ex_two_aps ! 1) 0 0 \<and>
   ap_map (ap_state ex_ap_inputs ex_two_aps [1, 0] 2) 0 0 = Fin 1 \<and>
   spec_ap_id ex_two_aps [Fin 10, Fin 20] 0 0 = Some 0"
proof -
  have a: "in_ap (ex_two_aps ! 0) 0 0" "\<not> in_ap (ex_two_aps ! 1) 0 0"
    by (simp_all add: ex_two_aps_def)
  have b: "spec_ap_id ex_two_aps [Fin 10, Fin 20] 0 0 = Some 0"
    by (simp add: spec_ap_id_def ex_two_aps_def upt_rec)
  have d: "in_ap (ex_aps ! 1) 0 2" "in_ap (ex_aps ! 2) 0 2" "\<not> in_ap (ex_aps ! 0) 0 2"
    by (simp_all add: ex_aps_def)
  have e: "spec_ap_id ex_aps [Fin 5, Fin 20, Fin 10] 0 2 = Some 1"
    by (simp add: spec_ap_id_def ex_aps_def upt_rec)
  show ?thesis
    by (intro conjI ex_run ex_peaks is_argsort_ex_argsort d ex_map(3) e
          ex_two_run ex_two_peaks a ex_two_map(1) b)
qed

theorem C1_first_covering_rank_witness:
  "run_make_ap_cube ex_argsort ex_ap_inputs ex_aps ex_flux
     = Inr (ap_state ex_ap_inputs ex_aps [1, 2, 0] 3) \<and>
   flux_at (NAXIS2 (header1 ex_ap_inputs)) (NAXIS1 (header1 ex_ap_inputs)) ex_flux ex_aps
     = Inr [Fin 5, Fin 20, Fin 10] \<and>
   is_argsort [Fin 5, Fin 20, Fin 10] (ex_argsort [Fin 5, Fin 20, Fin 10]) \<and>
   (0::nat) < NAXIS2 (header1 ex_ap_inputs) \<and> (2::nat) < NAXIS1 (header1 ex_ap_inputs) \<and>
   (\<exists>j < length ex_aps. in_ap (ex_aps ! j) 0 2) \<and>
   (\<exists>i < length ex_aps.
       ap_map (ap_state ex_ap_inputs ex_aps [1, 2, 0] 3) 0 2 = Fin (of_nat i) \<and>
       in_ap (ex_aps ! (sort_index ex_argsort [Fin 5, Fin 20, Fin 10] ! i)) 0 2 \<and>
       \<not> flt ([Fin 5, Fin 20, Fin 10] ! (sort_index ex_argsort [Fin 5, Fin 20, Fin 10] ! i))
              ([Fin 5, Fin 20, Fin 10] ! 2)) \<and>
   ap_map (ap_state ex_ap_inputs ex_aps [1, 2, 0] 3) 0 2 = Fin 0 \<and>
   sort_index ex_argsort [Fin 5, Fin 20, Fin 10] = [1, 2, 0] \<and>
   sort (sort_index ex_argsort [Fin 5, Fin 20, Fin 10]) = [0..<length ex_aps]"
proof -
  have h: "(0::nat) < NAXIS2 (header1 ex_ap_inputs)" "(2::nat) < NAXIS1 (header1 ex_ap_inputs)"
    by (simp_all add: ex_ap_inputs_def)
  have c: "in_ap (ex_aps ! 2) 0 2" "(2::nat) < length ex_aps"
    by (simp_all add: ex_aps_def)
  then have cov: "\<exists>j < length ex_aps. in_ap (ex_aps ! j) 0 2"
    by blast
  note t = C1_first_covering_rank
             [where argsort = ex_argsort, OF ex_run ex_peaks is_argsort_ex_argsort h]
  from t [THEN conjunct2, THEN conjunct1, THEN mp, OF cov] obtain i where
    i: "i < length ex_aps"
       "ap_map (ap_state ex_ap_inputs ex_aps [1, 2, 0] 3) 0 2 = Fin (of_nat i)"
       "in_ap (ex_aps ! (sort_index ex_argsort [Fin 5, Fin 20, Fin 10] ! i)) 0 2"
       "\<forall>j < length ex_aps. in_ap (ex_aps ! j) 0 2 \<longrightarrow>
           np_key ([Fin 5, Fin 20, Fin 10] ! j)
             \<le> np_key ([Fin 5, Fin 20, Fin 10] ! (sort_index ex_argsort [Fin 5, Fin 20, Fin 10] ! i)) \<and>
           \<not> flt ([Fin 5, Fin 20, Fin 10] ! (sort_index ex_argsort [Fin 5, Fin 20, Fin 10] ! i))
                  ([Fin 5, Fin 20, Fin 10] ! j)"
    by blast
  from i(4) c have "\<not> flt ([Fin 5, Fin 20, Fin 10] ! (sort_index ex_argsort [Fin 5, Fin 20, Fin 10] ! i))
                          ([Fin 5, Fin 20, Fin 10] ! 2)"
    by blast
  with i have "\<exists>i < length ex_aps.
       ap_map (ap_state ex_ap_inputs ex_aps [1, 2, 0] 3) 0 2 = Fin (of_nat i) \<and>
       in_ap (ex_aps ! (sort_index ex_argsort [Fin 5, Fin 20, Fin 10] ! i)) 0 2 \<and>
       \<not> flt ([Fin 5, Fin 20, Fin 10] ! (sort_index ex_argsort [Fin 5, Fin 20, Fin 10] ! i))
              ([Fin 5, Fin 20, Fin 10] ! 2)"
    by blast
  moreover note p = t [THEN conjunct2, THEN conjunct2, THEN conjunct2, THEN conjunct1]
  ultimately show ?thesis
    by (intro conjI ex_run ex_peaks is_argsort_ex_argsort h cov ex_map(3) ex_sort_index p)
qed

theorem C8_integrated_spectrum_witness:
  "run_make_ap_cube ex_argsort ex_ap_inputs ex_aps ex_flux
     = Inr (ap_state ex_ap_inputs ex_aps [1, 2, 0] 3) \<and>
   flux_at (NAXIS2 (header1 ex_ap_inputs)) (NAXIS1 (header1 ex_ap_inputs)) ex_flux ex_aps
     = Inr [Fin 5, Fin 20, Fin 10] \<and>
   is_argsort [Fin 5, Fin 20, Fin 10] (ex_argsort [Fin 5, Fin 20, Fin 10]) \<and>
   (0::nat) < NAXIS2 (header1 ex_ap_inputs) \<and> (2::nat) < NAXIS1 (header1 ex_ap_inputs) \<and>
   (0::nat) < NAXIS3 (header1 ex_ap_inputs) \<and>
   ap_map (ap_state ex_ap_inputs ex_aps [1, 2, 0] 3) 0 2 = Fin (of_nat 0) \<and>
   members_at (header1 ex_ap_inputs) (ap_map (ap_state ex_ap_inputs ex_aps [1, 2, 0] 3)) 0
     = [(0, 0), (0, 1), (0, 2)] \<and>
   ap_spec_cube (ap_state ex_ap_inputs ex_aps [1, 2, 0] 3) 0 0 2 = Fin 4 \<and>
   ap_spec_err (ap_state ex_ap_inputs ex_aps [1, 2, 0] 3) 0 0 2 = Fin 3 \<and>
   is_argsort [Fin 10, Fin 20] (ex_argsort [Fin 10, Fin 20]) \<and>
   ap_map (ap_state ex_ap_inputs ex_two_aps [1, 0] 2) 0 1 = NaN \<and>
   ap_spec_cube (ap_state ex_ap_inputs ex_two_aps [1, 0] 2) 0 0 1 = NaN \<and>
   ap_spec_err (ap_state ex_ap_inputs ex_two_aps [1, 0] 2) 0 0 1 = NaN"
proof -
  have h: "(0::nat) < NAXIS2 (header1 ex_ap_inputs)" "(2::nat) < NAXIS1 (header1 ex_ap_inputs)"
          "(0::nat) < NAXIS3 (header1 ex_ap_inputs)" "(1::nat) < NAXIS1 (header1 ex_ap_inputs)"
    by (simp_all add: ex_ap_inputs_def)
  have v: "ap_map (ap_state ex_ap_inputs ex_aps [1, 2, 0] 3) 0 2 = Fin (of_nat 0)"
    using ex_map(3) by simp
  note t = C8_integrated_spectrum
             [where argsort = ex_argsort, OF ex_run ex_peaks is_argsort_ex_argsort h(1) h(2) h(3)]
  from t [THEN conjunct1, rule_format, OF v]
  have s: "ap_spec_cube (ap_state ex_ap_inputs ex_aps [1, 2, 0] 3) 0 0 2 = Fin 4"
          "ap_spec_err (ap_state ex_ap_inputs ex_aps [1, 2, 0] 3) 0 0 2 = Fin 3"
    unfolding ex_members by (simp_all add: ex_ap_inputs_def)
  note u = C8_integrated_spectrum
             [where argsort = ex_argsort,
              OF ex_two_run ex_two_peaks is_argsort_ex_argsort h(1) h(4) h(3)]
  from u [THEN conjunct2, THEN mp, OF ex_two_map(2)]
  have n: "ap_spec_cube (ap_state ex_ap_inputs ex_two_aps [1, 0] 2) 0 0 1 = NaN"
          "ap_spec_err (ap_state ex_ap_inputs ex_two_aps [1, 0] 2) 0 0 1 = NaN"
    by simp_all
  show ?thesis
    by (intro conjI ex_run ex_peaks is_argsort_ex_argsort h(1) h(2) h(3) v ex_members s n
          ex_two_map(2))
qed

end
